theory Spec2Isabelle
  imports Complex_Main
begin

section \<open>JavaScript values\<close>

text \<open>
  The stores keep JSON documents whose fields are dynamically typed. The code
  branches on the type (\<^verbatim>\<open>typeof x === 'number'\<close>, \<^verbatim>\<open>Array.isArray(x)\<close>),
  on truthiness (\<^verbatim>\<open>x || null\<close>) and on definedness (\<^verbatim>\<open>x !== undefined\<close>) of the
  fields \<^verbatim>\<open>title\<close>, \<^verbatim>\<open>description\<close>, \<^verbatim>\<open>maxSelections\<close>, \<^verbatim>\<open>category\<close>,
  \<^verbatim>\<open>difficulty\<close> and \<^verbatim>\<open>technologies\<close>, so these fields hold a \<open>jsval\<close>.

  Numbers are the finite doubles, read as reals: the code only compares them and
  takes \<^verbatim>\<open>Math.max\<close>, both exact on doubles. \<^verbatim>\<open>NaN\<close> appears only as the
  result of a conversion and is \<open>None\<close> there; infinities are outside the model.
  Arrays are arrays of strings (the shape of \<^verbatim>\<open>technologies\<close>). Strings are lists
  of characters with code below 256.

  The keys \<^verbatim>\<open>id\<close>, \<^verbatim>\<open>teamNumber\<close> and \<^verbatim>\<open>problemStatementId\<close>, and the fields
  \<^verbatim>\<open>teamName\<close>, \<^verbatim>\<open>teamLeader\<close> and \<^verbatim>\<open>registrationDateTime\<close> are strings, on
  which \<^verbatim>\<open>===\<close> is equality and \<^verbatim>\<open>String(x)\<close> is the identity.
\<close>

datatype jsval =
    JUndefined
  | JNull
  | JBool bool
  | JNum real
  | JStr string
  | JArr "string list"

text \<open>Truthiness, for \<^verbatim>\<open>a || b\<close>.\<close>

fun truthy :: "jsval \<Rightarrow> bool" where
  "truthy JUndefined = False"
| "truthy JNull = False"
| "truthy (JBool b) = b"
| "truthy (JNum n) = (n \<noteq> 0)"
| "truthy (JStr s) = (s \<noteq> [])"
| "truthy (JArr a) = True"

definition js_or :: "jsval \<Rightarrow> jsval \<Rightarrow> jsval" where
  "js_or a b = (if truthy a then a else b)"

text \<open>\<^verbatim>\<open>Array.isArray(x) ? x : []\<close>\<close>

fun array_or_empty :: "jsval \<Rightarrow> jsval" where
  "array_or_empty (JArr a) = JArr a"
| "array_or_empty v = JArr []"

text \<open>
  White space of \<^verbatim>\<open>String.prototype.trim\<close> and of \<^verbatim>\<open>parseInt\<close> among the
  characters below 256: TAB, LF, VT, FF, CR, SP and NBSP.
\<close>

definition is_ws :: "char \<Rightarrow> bool" where
  "is_ws c = (c = CHR 0x09 \<or> c = CHR 0x0A \<or> c = CHR 0x0B \<or> c = CHR 0x0C
            \<or> c = CHR 0x0D \<or> c = CHR 0x20 \<or> c = CHR 0xA0)"

definition trim :: "string \<Rightarrow> string" where
  "trim s = rev (dropWhile is_ws (rev (dropWhile is_ws s)))"

definition is_digit :: "char \<Rightarrow> bool" where
  "is_digit c = (48 \<le> (of_char c :: nat) \<and> (of_char c :: nat) \<le> 57)"

definition digits_val :: "string \<Rightarrow> nat" where
  "digits_val z = foldl (\<lambda>a c. 10 * a + ((of_char c :: nat) - 48)) 0 z"

text \<open>
  The double nearest to a natural number, ties to even: below \<open>2^53\<close> the
  number itself, above it the leading 53 bits, rounded. Numbers beyond the
  largest double, which JavaScript reads as \<^verbatim>\<open>Infinity\<close>, are outside the model.
\<close>

fun bit_len :: "nat \<Rightarrow> nat" where
  "bit_len n = (if n = 0 then 0 else Suc (bit_len (n div 2)))"

declare bit_len.simps [simp del]

definition to_double :: "nat \<Rightarrow> nat" where
  "to_double n =
     (if n < 2 ^ 53 then n
      else
        (let e = bit_len n - 53;
             q = n div 2 ^ e;
             r = n mod 2 ^ e;
             h = 2 ^ (e - 1)
         in (if h < r \<or> (r = h \<and> odd q) then q + 1 else q) * 2 ^ e))"

text \<open>
  \<^verbatim>\<open>parseInt(s, 10)\<close>: skip leading white space, read a sign, read the longest
  run of decimal digits; no digit gives \<^verbatim>\<open>NaN\<close> (\<open>None\<close>). The value is the
  double nearest to the integer the digits denote.
\<close>

definition parseInt10 :: "string \<Rightarrow> int option" where
  "parseInt10 s =
     (let s1 = dropWhile is_ws s;
          neg = (s1 \<noteq> [] \<and> hd s1 = CHR ''-'');
          s2 = (if s1 \<noteq> [] \<and> (hd s1 = CHR ''-'' \<or> hd s1 = CHR ''+'') then tl s1 else s1);
          z = takeWhile is_digit s2
      in if z = [] then None
         else Some (if neg then - int (to_double (digits_val z)) else int (to_double (digits_val z))))"

text \<open>\<^verbatim>\<open>x || 0\<close> for the result of \<^verbatim>\<open>parseInt\<close>: \<^verbatim>\<open>NaN\<close> and 0 give 0.\<close>

fun int_or_zero :: "int option \<Rightarrow> real" where
  "int_or_zero None = 0"
| "int_or_zero (Some k) = of_int k"

definition join_comma :: "string list \<Rightarrow> string" where
  "join_comma a = (case a of [] \<Rightarrow> [] | x # xs \<Rightarrow> foldl (\<lambda>acc y. acc @ '','' @ y) x xs)"

text \<open>
  \<^verbatim>\<open>typeof v === 'number' ? v : parseInt(v || '0', 10) || 0\<close>, the expression
  the Mongo store binds to \<^verbatim>\<open>parsedMax\<close> (and \<^verbatim>\<open>parsed\<close>). A value that is not a
  number goes through \<^verbatim>\<open>v || '0'\<close> and then through \<^verbatim>\<open>String\<close>: the falsy values
  give \<^verbatim>\<open>'0'\<close>, \<^verbatim>\<open>true\<close> gives \<^verbatim>\<open>'true'\<close>, an array its elements joined by commas.
\<close>

fun parsedMax :: "jsval \<Rightarrow> real" where
  "parsedMax (JNum n) = n"
| "parsedMax (JStr s) = int_or_zero (parseInt10 (if s = [] then ''0'' else s))"
| "parsedMax (JBool b) = int_or_zero (parseInt10 (if b then ''true'' else ''0''))"
| "parsedMax JNull = int_or_zero (parseInt10 ''0'')"
| "parsedMax JUndefined = int_or_zero (parseInt10 ''0'')"
| "parsedMax (JArr a) = int_or_zero (parseInt10 (join_comma a))"

text \<open>\<^verbatim>\<open>const maxSel = Math.max(1, parsedMax)\<close>\<close>

definition maxSel :: "jsval \<Rightarrow> real" where
  "maxSel v = max 1 (parsedMax v)"

text \<open>
  \<^verbatim>\<open>ToNumber\<close>, which the relational operators apply to an operand that is not a
  number. On a string it is the built-in \<^verbatim>\<open>StringToNumber\<close>, which is not code of
  the repository: the model takes it as the parameter \<open>S\<close> (\<open>None\<close> for
  \<^verbatim>\<open>NaN\<close>). An array is first converted to a string.
\<close>

fun ToNumber :: "(string \<Rightarrow> real option) \<Rightarrow> jsval \<Rightarrow> real option" where
  "ToNumber S JUndefined = None"
| "ToNumber S JNull = Some 0"
| "ToNumber S (JBool b) = Some (if b then 1 else 0)"
| "ToNumber S (JNum n) = Some n"
| "ToNumber S (JStr s) = S s"
| "ToNumber S (JArr a) = S (join_comma a)"

text \<open>\<^verbatim>\<open>n < v\<close> and \<^verbatim>\<open>n >= v\<close> for a count \<open>n\<close>: both are false on \<^verbatim>\<open>NaN\<close>.\<close>

definition js_lt :: "(string \<Rightarrow> real option) \<Rightarrow> nat \<Rightarrow> jsval \<Rightarrow> bool" where
  "js_lt S n v = (case ToNumber S v of None \<Rightarrow> False | Some m \<Rightarrow> real n < m)"

definition js_ge :: "(string \<Rightarrow> real option) \<Rightarrow> nat \<Rightarrow> jsval \<Rightarrow> bool" where
  "js_ge S n v = (case ToNumber S v of None \<Rightarrow> False | Some m \<Rightarrow> m \<le> real n)"

section \<open>Documents and the store state\<close>

record problem_statement =
  ps_id :: string
  title :: jsval
  description :: jsval
  maxSelections :: jsval
  category :: jsval
  difficulty :: jsval
  technologies :: jsval

text \<open>
  The body of an update carries the same keys, each \<^verbatim>\<open>undefined\<close> when absent,
  and the alias \<^verbatim>\<open>max_selections\<close>.
\<close>

record ps_updates = problem_statement +
  max_selections :: jsval

record reg_request =
  teamNumber :: string
  teamName :: string
  teamLeader :: string
  problemStatementId :: string

record registration = reg_request +
  registrationDateTime :: string

text \<open>
  The state of either backend: the catalog and the ledger, in insertion order
  (\<^verbatim>\<open>data.json\<close> holds two arrays; the database two collections).
\<close>

record data =
  problemStatements :: "problem_statement list"
  registrations :: "registration list"

text \<open>\<^verbatim>\<open>{ id, changes }\<close>\<close>

record change_result =
  res_id :: string
  changes :: nat

record ps_view =
  view_id :: string
  view_title :: jsval
  view_description :: jsval
  view_max_selections :: jsval
  view_category :: jsval
  view_difficulty :: jsval
  view_technologies :: jsval
  selected_count :: nat
  is_available :: bool

record reg_view =
  team_number :: string
  team_name :: string
  team_leader :: string
  problem_title :: jsval
  problem_category :: jsval
  problem_difficulty :: jsval
  registration_date_time :: string

text \<open>
  The counting loop of both \<^verbatim>\<open>getAllProblemStatements\<close>:
  \<^verbatim>\<open>idToCount.set(k, (idToCount.get(k) || 0) + 1)\<close> for every registration.
\<close>

definition count_or_zero :: "nat option \<Rightarrow> nat" where
  "count_or_zero c = (case c of None \<Rightarrow> 0 | Some n \<Rightarrow> n)"

definition idToCount :: "registration list \<Rightarrow> (string \<rightharpoonup> nat)" where
  "idToCount rs =
     foldl (\<lambda>m r. m(problemStatementId r \<mapsto> count_or_zero (m (problemStatementId r)) + 1))
       Map.empty rs"

text \<open>\<^verbatim>\<open>new Map(problems.map(p => [p.id, p]))\<close>: a later entry replaces an earlier one.\<close>

definition idToPs :: "problem_statement list \<Rightarrow> (string \<rightharpoonup> problem_statement)" where
  "idToPs ps = foldl (\<lambda>m p. m(ps_id p \<mapsto> p)) Map.empty ps"

text \<open>\<^verbatim>\<open>xs.findIndex(P)\<close>, \<open>None\<close> for \<open>-1\<close>.\<close>

fun findIndex :: "('a \<Rightarrow> bool) \<Rightarrow> 'a list \<Rightarrow> nat option" where
  "findIndex P [] = None"
| "findIndex P (x # xs) =
     (if P x then Some 0 else map_option Suc (findIndex P xs))"

text \<open>The document both stores build from the fields of a request.\<close>

definition registration_record :: "string \<Rightarrow> 'a reg_request_scheme \<Rightarrow> string \<Rightarrow> registration" where
  "registration_record tn r now =
     \<lparr> teamNumber = tn, teamName = teamName r, teamLeader = teamLeader r,
       problemStatementId = problemStatementId r, registrationDateTime = now \<rparr>"

definition reg_to_view :: "problem_statement list \<Rightarrow> registration \<Rightarrow> reg_view" where
  "reg_to_view ps r =
     (let p = idToPs ps (problemStatementId r) in
      \<lparr> team_number = teamNumber r, team_name = teamName r, team_leader = teamLeader r,
        problem_title = (case p of None \<Rightarrow> JStr [] | Some q \<Rightarrow> js_or (title q) (JStr [])),
        problem_category = (case p of None \<Rightarrow> JNull | Some q \<Rightarrow> js_or (category q) JNull),
        problem_difficulty = (case p of None \<Rightarrow> JNull | Some q \<Rightarrow> js_or (difficulty q) JNull),
        registration_date_time = registrationDateTime r \<rparr>)"

section \<open>The file-backed store (json\_store.js, class DatabaseManager)\<close>

text \<open>
  Every method reads the whole file, works on the parsed copy and, when it
  changes something, writes the copy back in one \<^verbatim>\<open>#atomicWrite\<close> (a temporary
  file renamed over the data file). A method is a function from the state to its
  result and the new state. \<open>now\<close> is the string \<^verbatim>\<open>new Date().toISOString()\<close>
  returns during the call. The local \<^verbatim>\<open>before\<close> of the source is \<open>before_n\<close>.
\<close>

definition DatabaseManager_getAllProblemStatements ::
  "(string \<Rightarrow> real option) \<Rightarrow> data \<Rightarrow> ps_view list" where
  "DatabaseManager_getAllProblemStatements S d =
     (let counts = idToCount (registrations d) in
      map (\<lambda>ps.
        let selected = count_or_zero (counts (ps_id ps)) in
        \<lparr> view_id = ps_id ps, view_title = title ps, view_description = description ps,
          view_max_selections = maxSelections ps,
          view_category = js_or (category ps) JNull,
          view_difficulty = js_or (difficulty ps) JNull,
          view_technologies = js_or (technologies ps) (JArr []),
          selected_count = selected,
          is_available = js_lt S selected (maxSelections ps) \<rparr>)
        (problemStatements d))"

definition DatabaseManager_getProblemStatementById :: "string \<Rightarrow> data \<Rightarrow> problem_statement option" where
  "DatabaseManager_getProblemStatementById i d = find (\<lambda>p. ps_id p = i) (problemStatements d)"

text \<open>
  The object \<^verbatim>\<open>createProblemStatement\<close> and \<^verbatim>\<open>importFromJSON\<close> push:
  \<^verbatim>\<open>maxSelections\<close> is copied as it comes.
\<close>

definition DatabaseManager_document :: "problem_statement \<Rightarrow> problem_statement" where
  "DatabaseManager_document problemStatement =
     \<lparr> ps_id = ps_id problemStatement,
       title = title problemStatement,
       description = description problemStatement,
       maxSelections = maxSelections problemStatement,
       category = js_or (category problemStatement) JNull,
       difficulty = js_or (difficulty problemStatement) JNull,
       technologies = array_or_empty (technologies problemStatement) \<rparr>"

definition DatabaseManager_createProblemStatement ::
  "problem_statement \<Rightarrow> data \<Rightarrow> change_result \<times> data" where
  "DatabaseManager_createProblemStatement problemStatement d =
     (if list_ex (\<lambda>p. ps_id p = ps_id problemStatement) (problemStatements d)
      then (\<lparr> res_id = ps_id problemStatement, changes = 0 \<rparr>, d)
      else (\<lparr> res_id = ps_id problemStatement, changes = 1 \<rparr>,
            d \<lparr> problemStatements := problemStatements d @
                  [DatabaseManager_document problemStatement] \<rparr>))"

text \<open>
  The merge of \<^verbatim>\<open>updateProblemStatement\<close>: \<^verbatim>\<open>next = { ...current }\<close>, then one
  assignment for each key of \<^verbatim>\<open>updates\<close> that is not \<^verbatim>\<open>undefined\<close>, in the
  order of the source (\<^verbatim>\<open>maxSelections\<close> after \<^verbatim>\<open>max_selections\<close>).
\<close>

definition set_if_defined ::
  "jsval \<Rightarrow> (jsval \<Rightarrow> problem_statement \<Rightarrow> problem_statement) \<Rightarrow> problem_statement \<Rightarrow> problem_statement" where
  "set_if_defined v f p = (if v \<noteq> JUndefined then f v p else p)"

definition DatabaseManager_merge :: "ps_updates \<Rightarrow> problem_statement \<Rightarrow> problem_statement" where
  "DatabaseManager_merge updates current =
     (set_if_defined (technologies updates) (\<lambda>v p. p\<lparr>technologies := array_or_empty v\<rparr>)
     (set_if_defined (difficulty updates) (\<lambda>v p. p\<lparr>difficulty := v\<rparr>)
     (set_if_defined (category updates) (\<lambda>v p. p\<lparr>category := v\<rparr>)
     (set_if_defined (maxSelections updates) (\<lambda>v p. p\<lparr>maxSelections := v\<rparr>)
     (set_if_defined (max_selections updates) (\<lambda>v p. p\<lparr>maxSelections := v\<rparr>)
     (set_if_defined (description updates) (\<lambda>v p. p\<lparr>description := v\<rparr>)
     (set_if_defined (title updates) (\<lambda>v p. p\<lparr>title := v\<rparr>)
        current)))))))"

definition DatabaseManager_updateProblemStatement ::
  "string \<Rightarrow> ps_updates \<Rightarrow> data \<Rightarrow> change_result \<times> data" where
  "DatabaseManager_updateProblemStatement i updates d =
     (case findIndex (\<lambda>p. ps_id p = i) (problemStatements d) of
        None \<Rightarrow> (\<lparr> res_id = i, changes = 0 \<rparr>, d)
      | Some idx \<Rightarrow>
          (\<lparr> res_id = i, changes = 1 \<rparr>,
           d \<lparr> problemStatements :=
                 (problemStatements d)
                   [idx := DatabaseManager_merge updates (problemStatements d ! idx)] \<rparr>))"

definition DatabaseManager_deleteProblemStatement :: "string \<Rightarrow> data \<Rightarrow> change_result \<times> data" where
  "DatabaseManager_deleteProblemStatement i d =
     (let before_n = length (problemStatements d);
          d1 = d \<lparr> problemStatements := filter (\<lambda>p. ps_id p \<noteq> i) (problemStatements d) \<rparr>;
          d2 = d1 \<lparr> registrations := filter (\<lambda>r. problemStatementId r \<noteq> i) (registrations d1) \<rparr>
      in (\<lparr> res_id = i, changes = before_n - length (problemStatements d2) \<rparr>, d2))"

definition DatabaseManager_getAllRegistrations :: "data \<Rightarrow> reg_view list" where
  "DatabaseManager_getAllRegistrations d =
     map (reg_to_view (problemStatements d)) (registrations d)"

definition DatabaseManager_isTeamNumberTaken :: "string \<Rightarrow> data \<Rightarrow> bool" where
  "DatabaseManager_isTeamNumberTaken tn d = list_ex (\<lambda>r. teamNumber r = tn) (registrations d)"

definition DatabaseManager_createRegistrationAtomic ::
  "(string \<Rightarrow> real option) \<Rightarrow> string \<Rightarrow> reg_request \<Rightarrow> data \<Rightarrow> change_result option \<times> data" where
  "DatabaseManager_createRegistrationAtomic S now registration d =
     (if list_ex (\<lambda>r. teamNumber r = teamNumber registration) (registrations d) then (None, d)
      else
        (case find (\<lambda>p. ps_id p = problemStatementId registration) (problemStatements d) of
           None \<Rightarrow> (None, d)
         | Some ps \<Rightarrow>
             (let current = length (filter (\<lambda>r. problemStatementId r = ps_id ps) (registrations d)) in
              if js_ge S current (maxSelections ps) then (None, d)
              else
                (let record = registration_record (teamNumber registration) registration now in
                 (Some \<lparr> res_id = teamNumber record, changes = 1 \<rparr>,
                  d \<lparr> registrations := registrations d @ [record] \<rparr>)))))"

definition DatabaseManager_deleteRegistration :: "string \<Rightarrow> data \<Rightarrow> nat \<times> data" where
  "DatabaseManager_deleteRegistration tn d =
     (let before_n = length (registrations d);
          d1 = d \<lparr> registrations := filter (\<lambda>r. teamNumber r \<noteq> tn) (registrations d) \<rparr>
      in (before_n - length (registrations d1), d1))"

text \<open>
  \<^verbatim>\<open>importFromJSON\<close>: \<open>None\<close> stands for an argument that is falsy or whose
  \<^verbatim>\<open>problemStatements\<close> is not an array. The set \<^verbatim>\<open>newIds\<close> is built once, from
  the catalog as it is when the loop starts.
\<close>

definition DatabaseManager_importFromJSON :: "problem_statement list option \<Rightarrow> data \<Rightarrow> data" where
  "DatabaseManager_importFromJSON jsonData d =
     (case jsonData of
        None \<Rightarrow> d
      | Some items \<Rightarrow>
          (let newIds = set (map ps_id (problemStatements d)) in
           d \<lparr> problemStatements := problemStatements d @
                 map DatabaseManager_document (filter (\<lambda>ps. ps_id ps \<notin> newIds) items) \<rparr>))"

text \<open>
  \<^verbatim>\<open>seedProblemStatements\<close>: the catalog becomes the three default statements.
\<close>

definition defaults :: "problem_statement list" where
  "defaults =
     [\<lparr> ps_id = ''ps001'', title = JStr ''Secure Authentication System'',
        description = JStr ''Design and implement a multi-factor authentication system with biometric verification, OTP, and secure session management for a banking application.'',
        maxSelections = JNum 2, category = JStr ''Cybersecurity'', difficulty = JStr ''Advanced'',
        technologies = JArr [''Node.js'', ''React'', ''JWT''] \<rparr>,
      \<lparr> ps_id = ''ps002'', title = JStr ''AI-Powered Code Review Assistant'',
        description = JStr ''Develop an intelligent code review tool that uses machine learning to detect bugs, security vulnerabilities, and suggest improvements in real-time.'',
        maxSelections = JNum 2, category = JStr ''Artificial Intelligence'', difficulty = JStr ''Advanced'',
        technologies = JArr [''Python'', ''TensorFlow''] \<rparr>,
      \<lparr> ps_id = ''ps003'', title = JStr ''Blockchain Supply Chain Tracker'',
        description = JStr ''Create a transparent supply chain management system using blockchain technology to track products from manufacturer to consumer.'',
        maxSelections = JNum 2, category = JStr ''Blockchain'', difficulty = JStr ''Intermediate'',
        technologies = JArr [''Ethereum'', ''Solidity''] \<rparr>]"

definition DatabaseManager_seedProblemStatements :: "data \<Rightarrow> data" where
  "DatabaseManager_seedProblemStatements d = d \<lparr> problemStatements := defaults \<rparr>"

section \<open>The document-database store (class MongoStore)\<close>

text \<open>
  The driver calls the class makes, on a collection held as the list of its
  documents. \<^verbatim>\<open>init\<close> creates a unique index on \<^verbatim>\<open>id\<close> of the problem statements
  and one on \<^verbatim>\<open>teamNumber\<close> of the registrations: an insert of a document whose
  key is present fails with error code 11000. \<^verbatim>\<open>deleteOne\<close> removes the first
  match, \<^verbatim>\<open>deleteMany\<close> every match, \<^verbatim>\<open>updateOne\<close> rewrites the first match and
  reports in \<^verbatim>\<open>modifiedCount\<close> whether the document changed (an empty
  \<^verbatim>\<open>$set\<close> changes nothing, as servers from version 5.0 take it). The serializer
  stores an \<^verbatim>\<open>undefined\<close> field as \<^verbatim>\<open>null\<close>.
\<close>

datatype mongo_error = DuplicateKey11000

definition insertOne_ps ::
  "problem_statement \<Rightarrow> problem_statement list \<Rightarrow> mongo_error + problem_statement list" where
  "insertOne_ps doc coll =
     (if list_ex (\<lambda>p. ps_id p = ps_id doc) coll then Inl DuplicateKey11000 else Inr (coll @ [doc]))"

definition insertOne_regs ::
  "registration \<Rightarrow> registration list \<Rightarrow> mongo_error + registration list" where
  "insertOne_regs doc coll =
     (if list_ex (\<lambda>r. teamNumber r = teamNumber doc) coll then Inl DuplicateKey11000
      else Inr (coll @ [doc]))"

fun deleteOne :: "('a \<Rightarrow> bool) \<Rightarrow> 'a list \<Rightarrow> 'a list" where
  "deleteOne P [] = []"
| "deleteOne P (x # xs) = (if P x then xs else x # deleteOne P xs)"

definition bson :: "jsval \<Rightarrow> jsval" where
  "bson v = (if v = JUndefined then JNull else v)"

text \<open>The document \<^verbatim>\<open>createProblemStatement\<close> and \<^verbatim>\<open>importFromJSON\<close> insert.\<close>

definition MongoStore_document :: "problem_statement \<Rightarrow> problem_statement" where
  "MongoStore_document problemStatement =
     \<lparr> ps_id = ps_id problemStatement,
       title = bson (title problemStatement),
       description = bson (description problemStatement),
       maxSelections = JNum (maxSel (maxSelections problemStatement)),
       category = js_or (category problemStatement) JNull,
       difficulty = js_or (difficulty problemStatement) JNull,
       technologies = array_or_empty (technologies problemStatement) \<rparr>"

definition MongoStore_getAllProblemStatements :: "data \<Rightarrow> ps_view list" where
  "MongoStore_getAllProblemStatements d =
     (let counts = idToCount (registrations d) in
      map (\<lambda>p.
        let selected = count_or_zero (counts (ps_id p)) in
        \<lparr> view_id = ps_id p, view_title = title p, view_description = description p,
          view_max_selections = JNum (maxSel (maxSelections p)),
          view_category = js_or (category p) JNull,
          view_difficulty = js_or (difficulty p) JNull,
          view_technologies = array_or_empty (technologies p),
          selected_count = selected,
          is_available = (real selected < maxSel (maxSelections p)) \<rparr>)
        (problemStatements d))"

definition MongoStore_getProblemStatementById :: "string \<Rightarrow> data \<Rightarrow> problem_statement option" where
  "MongoStore_getProblemStatementById i d = find (\<lambda>p. ps_id p = i) (problemStatements d)"

text \<open>
  \<^verbatim>\<open>createProblemStatement\<close> catches whatever \<^verbatim>\<open>insertOne\<close> throws and answers
  with \<^verbatim>\<open>changes: 0\<close>.
\<close>

definition MongoStore_createProblemStatement ::
  "problem_statement \<Rightarrow> data \<Rightarrow> change_result \<times> data" where
  "MongoStore_createProblemStatement problemStatement d =
     (case insertOne_ps (MongoStore_document problemStatement) (problemStatements d) of
        Inr coll \<Rightarrow> (\<lparr> res_id = ps_id problemStatement, changes = 1 \<rparr>, d \<lparr> problemStatements := coll \<rparr>)
      | Inl e \<Rightarrow> (\<lparr> res_id = ps_id problemStatement, changes = 0 \<rparr>, d))"

text \<open>
  The \<^verbatim>\<open>$set\<close> document of \<^verbatim>\<open>updateProblemStatement\<close>, applied to a stored
  document. \<^verbatim>\<open>max_selections ?? maxSelections\<close> takes the alias unless it is
  \<^verbatim>\<open>null\<close> or \<^verbatim>\<open>undefined\<close>.
\<close>

definition nullish_or :: "jsval \<Rightarrow> jsval \<Rightarrow> jsval" where
  "nullish_or a b = (if a = JUndefined \<or> a = JNull then b else a)"

definition MongoStore_set :: "ps_updates \<Rightarrow> problem_statement \<Rightarrow> problem_statement" where
  "MongoStore_set updates current =
     (let p1 = set_if_defined (technologies updates) (\<lambda>v p. p\<lparr>technologies := array_or_empty v\<rparr>)
               (set_if_defined (difficulty updates) (\<lambda>v p. p\<lparr>difficulty := v\<rparr>)
               (set_if_defined (category updates) (\<lambda>v p. p\<lparr>category := v\<rparr>)
               (set_if_defined (description updates) (\<lambda>v p. p\<lparr>description := v\<rparr>)
               (set_if_defined (title updates) (\<lambda>v p. p\<lparr>title := v\<rparr>)
                  current))))
      in if max_selections updates \<noteq> JUndefined \<or> maxSelections updates \<noteq> JUndefined
         then p1 \<lparr> maxSelections :=
                    JNum (maxSel (nullish_or (max_selections updates) (maxSelections updates))) \<rparr>
         else p1)"

definition MongoStore_updateProblemStatement ::
  "string \<Rightarrow> ps_updates \<Rightarrow> data \<Rightarrow> change_result \<times> data" where
  "MongoStore_updateProblemStatement i updates d =
     (case findIndex (\<lambda>p. ps_id p = i) (problemStatements d) of
        None \<Rightarrow> (\<lparr> res_id = i, changes = 0 \<rparr>, d)
      | Some idx \<Rightarrow>
          (let current = problemStatements d ! idx;
               next = MongoStore_set updates current;
               modifiedCount = (if next = current then 0 else 1)
           in (\<lparr> res_id = i, changes = modifiedCount \<rparr>,
               d \<lparr> problemStatements := (problemStatements d)[idx := next] \<rparr>)))"

text \<open>
  \<^verbatim>\<open>deleteProblemStatement\<close> makes two separate calls, outside any transaction:
  \<^verbatim>\<open>ps.deleteOne\<close>, then \<^verbatim>\<open>regs.deleteMany\<close>. \<open>MongoStore_deleteProblemStatement_writes\<close>
  lists the states the database goes through; the file-backed store has one
  write.
\<close>

definition MongoStore_deleteProblemStatement_writes :: "string \<Rightarrow> data \<Rightarrow> data list" where
  "MongoStore_deleteProblemStatement_writes i d =
     (let d1 = d \<lparr> problemStatements := deleteOne (\<lambda>p. ps_id p = i) (problemStatements d) \<rparr>;
          d2 = d1 \<lparr> registrations := filter (\<lambda>r. problemStatementId r \<noteq> i) (registrations d1) \<rparr>
      in [d1, d2])"

definition MongoStore_deleteProblemStatement :: "string \<Rightarrow> data \<Rightarrow> change_result \<times> data" where
  "MongoStore_deleteProblemStatement i d =
     (let d1 = d \<lparr> problemStatements := deleteOne (\<lambda>p. ps_id p = i) (problemStatements d) \<rparr>;
          deletedCount = length (problemStatements d) - length (problemStatements d1);
          d2 = d1 \<lparr> registrations := filter (\<lambda>r. problemStatementId r \<noteq> i) (registrations d1) \<rparr>
      in (\<lparr> res_id = i, changes = deletedCount \<rparr>, d2))"

definition DatabaseManager_deleteProblemStatement_writes :: "string \<Rightarrow> data \<Rightarrow> data list" where
  "DatabaseManager_deleteProblemStatement_writes i d =
     [snd (DatabaseManager_deleteProblemStatement i d)]"

definition MongoStore_getAllRegistrations :: "data \<Rightarrow> reg_view list" where
  "MongoStore_getAllRegistrations d =
     map (reg_to_view (problemStatements d)) (registrations d)"

definition MongoStore_isTeamNumberTaken :: "string \<Rightarrow> data \<Rightarrow> bool" where
  "MongoStore_isTeamNumberTaken tn d =
     (let target = trim tn in
      find (\<lambda>r. teamNumber r = target) (registrations d) \<noteq> None)"

text \<open>
  \<^verbatim>\<open>createRegistrationAtomic\<close>: the callback of \<^verbatim>\<open>session.withTransaction\<close> run
  once, alone. A duplicate-key error of the insert aborts the transaction and
  is answered with \<^verbatim>\<open>null\<close>.
\<close>

definition MongoStore_createRegistrationAtomic ::
  "string \<Rightarrow> reg_request \<Rightarrow> data \<Rightarrow> change_result option \<times> data" where
  "MongoStore_createRegistrationAtomic now registration d =
     (let target = trim (teamNumber registration) in
      case find (\<lambda>r. teamNumber r = target) (registrations d) of
        Some exists \<Rightarrow> (None, d)
      | None \<Rightarrow>
        (case find (\<lambda>p. ps_id p = problemStatementId registration) (problemStatements d) of
           None \<Rightarrow> (None, d)
         | Some problem \<Rightarrow>
             (let current = length (filter (\<lambda>r. problemStatementId r = ps_id problem) (registrations d)) in
              if maxSel (maxSelections problem) \<le> real current then (None, d)
              else
                (let record = registration_record target registration now in
                 case insertOne_regs record (registrations d) of
                   Inl e \<Rightarrow> (None, d)
                 | Inr coll \<Rightarrow>
                     (Some \<lparr> res_id = teamNumber record, changes = 1 \<rparr>,
                      d \<lparr> registrations := coll \<rparr>)))))"

definition MongoStore_deleteRegistration :: "string \<Rightarrow> data \<Rightarrow> nat \<times> data" where
  "MongoStore_deleteRegistration tn d =
     (let target = trim tn;
          d1 = d \<lparr> registrations := deleteOne (\<lambda>r. teamNumber r = target) (registrations d) \<rparr>
      in (length (registrations d) - length (registrations d1), d1))"

text \<open>
  \<^verbatim>\<open>importFromJSON\<close>: the documents whose \<^verbatim>\<open>id\<close> is not in the catalog go to one
  ordered \<^verbatim>\<open>insertMany\<close>, which inserts them one by one and stops at the first
  duplicate key; the error is not caught (\<open>Some\<close> in the result).
\<close>

fun insertMany_ps ::
  "problem_statement list \<Rightarrow> problem_statement list \<Rightarrow> mongo_error option \<times> problem_statement list" where
  "insertMany_ps [] coll = (None, coll)"
| "insertMany_ps (doc # docs) coll =
     (case insertOne_ps doc coll of
        Inl e \<Rightarrow> (Some e, coll)
      | Inr coll' \<Rightarrow> insertMany_ps docs coll')"

definition MongoStore_importFromJSON ::
  "problem_statement list option \<Rightarrow> data \<Rightarrow> mongo_error option \<times> data" where
  "MongoStore_importFromJSON jsonData d =
     (case jsonData of
        None \<Rightarrow> (None, d)
      | Some items \<Rightarrow>
          (let existingIds = set (map ps_id (problemStatements d));
               toInsert = map MongoStore_document (filter (\<lambda>psItem. ps_id psItem \<notin> existingIds) items)
           in if toInsert = [] then (None, d)
              else (case insertMany_ps toInsert (problemStatements d) of
                      (e, coll) \<Rightarrow> (e, d \<lparr> problemStatements := coll \<rparr>))))"

section \<open>The request handlers of app.js\<close>

text \<open>
  \<^verbatim>\<open>POST /api/register\<close>, over the three methods of \<^verbatim>\<open>db\<close> it calls. The
  responses are 400 (a field is missing), 409 \<^verbatim>\<open>Team number already registered.\<close>,
  404 \<^verbatim>\<open>Problem statement not found.\<close>, 409 \<^verbatim>\<open>Problem statement is full or team
  already registered.\<close> and 200 with the result and the statement.
\<close>

datatype response =
    MissingFields400
  | TeamTaken409
  | NotFound404
  | FullOrTaken409
  | Success200 change_result problem_statement

definition post_register ::
  "(string \<Rightarrow> data \<Rightarrow> bool) \<Rightarrow> (string \<Rightarrow> data \<Rightarrow> problem_statement option) \<Rightarrow>
   (reg_request \<Rightarrow> data \<Rightarrow> change_result option \<times> data) \<Rightarrow>
   reg_request \<Rightarrow> data \<Rightarrow> response \<times> data" where
  "post_register isTeamNumberTaken getProblemStatementById createRegistrationAtomic body d =
     (if teamNumber body = [] \<or> teamName body = [] \<or> teamLeader body = []
         \<or> problemStatementId body = [] then (MissingFields400, d)
      else if isTeamNumberTaken (teamNumber body) d then (TeamTaken409, d)
      else
        (case getProblemStatementById (problemStatementId body) d of
           None \<Rightarrow> (NotFound404, d)
         | Some ps \<Rightarrow>
             (case createRegistrationAtomic body d of
                (None, d') \<Rightarrow> (FullOrTaken409, d')
              | (Some registration, d') \<Rightarrow> (Success200 registration ps, d'))))"

text \<open>The application constructs \<^verbatim>\<open>db\<close> as a \<^verbatim>\<open>DatabaseManager\<close>.\<close>

definition app_post_register ::
  "(string \<Rightarrow> real option) \<Rightarrow> string \<Rightarrow> reg_request \<Rightarrow> data \<Rightarrow> response \<times> data" where
  "app_post_register S now =
     post_register DatabaseManager_isTeamNumberTaken DatabaseManager_getProblemStatementById
       (DatabaseManager_createRegistrationAtomic S now)"

text \<open>
  \<^verbatim>\<open>POST /api/problem-statements\<close> awaits \<^verbatim>\<open>createProblemStatement\<close>, drops its
  result and answers with status 201.
\<close>

definition app_post_problem_statements :: "problem_statement \<Rightarrow> data \<Rightarrow> nat \<times> data" where
  "app_post_problem_statements problemStatement d =
     (201, snd (DatabaseManager_createProblemStatement problemStatement d))"

section \<open>Properties of the store state\<close>

text \<open>
  The number of ledger entries that reference a problem statement, and the
  capacity invariant: every statement of the catalog has a numeric
  \<^verbatim>\<open>maxSelections\<close> that its count does not exceed.
\<close>

definition count_for :: "data \<Rightarrow> string \<Rightarrow> nat" where
  "count_for d i = length (filter (\<lambda>r. problemStatementId r = i) (registrations d))"

definition within_capacity :: "data \<Rightarrow> problem_statement \<Rightarrow> bool" where
  "within_capacity d p =
     (case maxSelections p of JNum m \<Rightarrow> real (count_for d (ps_id p)) \<le> m | _ \<Rightarrow> False)"

definition capacity_inv :: "data \<Rightarrow> bool" where
  "capacity_inv d = list_all (within_capacity d) (problemStatements d)"

text \<open>
  A catalog as the data model describes it: the ids are unique and every
  \<^verbatim>\<open>maxSelections\<close> is an integer-valued number, at least 1.
\<close>

definition positive_integer :: "jsval \<Rightarrow> bool" where
  "positive_integer v = (case v of JNum m \<Rightarrow> 1 \<le> m \<and> m = of_int \<lfloor>m\<rfloor> | _ \<Rightarrow> False)"

definition wf_catalog :: "data \<Rightarrow> bool" where
  "wf_catalog d =
     (distinct (map ps_id (problemStatements d))
      \<and> list_all (\<lambda>p. positive_integer (maxSelections p)) (problemStatements d))"

definition numeric_capacity :: "jsval \<Rightarrow> bool" where
  "numeric_capacity v = (case v of JNum m \<Rightarrow> 1 \<le> m | _ \<Rightarrow> False)"

text \<open>
  A state as the Mongo store writes it: every \<^verbatim>\<open>maxSelections\<close> is a number of
  at least 1 and every recorded team number is trimmed.
\<close>

definition mongo_shaped :: "data \<Rightarrow> bool" where
  "mongo_shaped d =
     (list_all (\<lambda>p. numeric_capacity (maxSelections p)) (problemStatements d)
      \<and> list_all (\<lambda>r. trim (teamNumber r) = teamNumber r) (registrations d))"

text \<open>
  The requested statement exists, its \<^verbatim>\<open>maxSelections\<close> is a number, and the
  count of its ledger entries is not strictly less than it.
\<close>

definition problem_full :: "data \<Rightarrow> string \<Rightarrow> bool" where
  "problem_full d pid =
     (case find (\<lambda>p. ps_id p = pid) (problemStatements d) of
        None \<Rightarrow> False
      | Some p \<Rightarrow> (case maxSelections p of JNum m \<Rightarrow> m \<le> real (count_for d (ps_id p)) | _ \<Rightarrow> False))"

text \<open>Some registration references a statement that is not in the catalog.\<close>

definition dangling :: "data \<Rightarrow> bool" where
  "dangling d =
     list_ex (\<lambda>r. \<not> list_ex (\<lambda>p. ps_id p = problemStatementId r) (problemStatements d))
       (registrations d)"

text \<open>
  What a view of \<^verbatim>\<open>getAllProblemStatements\<close> has to say about a statement \<open>p\<close>
  over the ledger \<open>rs\<close>: its id, the number of ledger entries that reference it,
  and the availability flag \<^verbatim>\<open>selected_count < max_selections\<close>.
\<close>

definition view_matches ::
  "(string \<Rightarrow> real option) \<Rightarrow> registration list \<Rightarrow> problem_statement \<Rightarrow> ps_view \<Rightarrow> bool" where
  "view_matches S rs p v =
     (view_id v = ps_id p
      \<and> selected_count v = length (filter (\<lambda>r. problemStatementId r = ps_id p) rs)
      \<and> is_available v = js_lt S (selected_count v) (view_max_selections v))"

text \<open>
  The frame of an update \<open>u\<close> that turns \<open>p\<close> into \<open>p'\<close>: the id stays, and so
  does every field whose key is \<^verbatim>\<open>undefined\<close> in \<open>u\<close> (\<^verbatim>\<open>maxSelections\<close> has
  two keys).
\<close>

definition frame_ok :: "ps_updates \<Rightarrow> problem_statement \<Rightarrow> problem_statement \<Rightarrow> bool" where
  "frame_ok u p p' =
     (ps_id p' = ps_id p
      \<and> (title u = JUndefined \<longrightarrow> title p' = title p)
      \<and> (description u = JUndefined \<longrightarrow> description p' = description p)
      \<and> (maxSelections u = JUndefined \<and> max_selections u = JUndefined \<longrightarrow>
            maxSelections p' = maxSelections p)
      \<and> (category u = JUndefined \<longrightarrow> category p' = category p)
      \<and> (difficulty u = JUndefined \<longrightarrow> difficulty p' = difficulty p)
      \<and> (technologies u = JUndefined \<longrightarrow> technologies p' = technologies p))"

section \<open>Sequences of mutations\<close>

text \<open>
  The mutating methods as commands, and a store after a list of them. A
  mutation spares a registration when it is neither the deletion of its problem
  statement nor the deletion of its team number (as given, or trimmed as the
  Mongo store trims it).
\<close>

datatype mutation =
    CreateProblemStatement problem_statement
  | UpdateProblemStatement string ps_updates
  | DeleteProblemStatement string
  | CreateRegistration string reg_request
  | DeleteRegistration string
  | ImportFromJSON "problem_statement list option"

fun DatabaseManager_apply :: "(string \<Rightarrow> real option) \<Rightarrow> mutation \<Rightarrow> data \<Rightarrow> data" where
  "DatabaseManager_apply S (CreateProblemStatement p) d = snd (DatabaseManager_createProblemStatement p d)"
| "DatabaseManager_apply S (UpdateProblemStatement i u) d = snd (DatabaseManager_updateProblemStatement i u d)"
| "DatabaseManager_apply S (DeleteProblemStatement i) d = snd (DatabaseManager_deleteProblemStatement i d)"
| "DatabaseManager_apply S (CreateRegistration now r) d = snd (DatabaseManager_createRegistrationAtomic S now r d)"
| "DatabaseManager_apply S (DeleteRegistration tn) d = snd (DatabaseManager_deleteRegistration tn d)"
| "DatabaseManager_apply S (ImportFromJSON j) d = DatabaseManager_importFromJSON j d"

fun MongoStore_apply :: "mutation \<Rightarrow> data \<Rightarrow> data" where
  "MongoStore_apply (CreateProblemStatement p) d = snd (MongoStore_createProblemStatement p d)"
| "MongoStore_apply (UpdateProblemStatement i u) d = snd (MongoStore_updateProblemStatement i u d)"
| "MongoStore_apply (DeleteProblemStatement i) d = snd (MongoStore_deleteProblemStatement i d)"
| "MongoStore_apply (CreateRegistration now r) d = snd (MongoStore_createRegistrationAtomic now r d)"
| "MongoStore_apply (DeleteRegistration tn) d = snd (MongoStore_deleteRegistration tn d)"
| "MongoStore_apply (ImportFromJSON j) d = snd (MongoStore_importFromJSON j d)"

definition after_DatabaseManager :: "(string \<Rightarrow> real option) \<Rightarrow> mutation list \<Rightarrow> data \<Rightarrow> data" where
  "after_DatabaseManager S ms d = foldl (\<lambda>d m. DatabaseManager_apply S m d) d ms"

definition after_MongoStore :: "mutation list \<Rightarrow> data \<Rightarrow> data" where
  "after_MongoStore ms d = foldl (\<lambda>d m. MongoStore_apply m d) d ms"

fun spares :: "registration \<Rightarrow> mutation \<Rightarrow> bool" where
  "spares reg (DeleteProblemStatement i) = (problemStatementId reg \<noteq> i)"
| "spares reg (DeleteRegistration tn) = (teamNumber reg \<noteq> tn \<and> teamNumber reg \<noteq> trim tn)"
| "spares reg m = True"

section \<open>Concrete states\<close>

text \<open>
  \<open>start\<close> is a freshly seeded store. \<open>scenario\<close> is the store after teams
  T1 and T2 registered for \<^verbatim>\<open>ps001\<close>, whose \<^verbatim>\<open>maxSelections\<close> is 2.
  \<open>zero_capacity\<close> is the file-backed store after a statement with
  \<^verbatim>\<open>maxSelections: 0\<close> was created.
\<close>

definition request :: "string \<Rightarrow> string \<Rightarrow> reg_request" where
  "request tn pid = \<lparr> teamNumber = tn, teamName = ''Team'', teamLeader = ''Lead'', problemStatementId = pid \<rparr>"

definition start :: data where
  "start = \<lparr> problemStatements = defaults, registrations = [] \<rparr>"

definition scenario :: data where
  "scenario = \<lparr> problemStatements = defaults,
                registrations = [registration_record ''T1'' (request ''T1'' ''ps001'') ''2025-01-01T10:00:00.000Z'',
                                 registration_record ''T2'' (request ''T2'' ''ps001'') ''2025-01-01T10:05:00.000Z''] \<rparr>"

definition no_updates :: ps_updates where
  "no_updates = \<lparr> ps_id = [], title = JUndefined, description = JUndefined, maxSelections = JUndefined,
                  category = JUndefined, difficulty = JUndefined, technologies = JUndefined,
                  max_selections = JUndefined \<rparr>"

definition statement :: "string \<Rightarrow> jsval \<Rightarrow> problem_statement" where
  "statement i m =
     \<lparr> ps_id = i, title = JStr ''Realtime Dashboard'', description = JStr ''Live capacity view'',
       maxSelections = m, category = JUndefined, difficulty = JStr ''Beginner'',
       technologies = JArr [''SSE''] \<rparr>"

definition zero_capacity :: data where
  "zero_capacity = snd (DatabaseManager_createProblemStatement (statement ''ps004'' (JNum 0)) start)"

definition other_mutations :: "mutation list" where
  "other_mutations =
     [DeleteProblemStatement ''ps003'',
      UpdateProblemStatement ''ps001'' (no_updates \<lparr> maxSelections := JNum 5 \<rparr>),
      DeleteRegistration ''T2'',
      CreateRegistration ''2025-01-01T12:00:00.000Z'' (request ''T9'' ''ps002'')]"

section \<open>Lists, counts and the driver calls\<close>

text \<open>
  \<^verbatim>\<open>parseInt\<close> at some strings: an integer above \<open>2^53\<close> is rounded to the
  nearest double, what follows the digits is dropped, and a string that does
  not start with a digit (after white space and a sign) is \<^verbatim>\<open>NaN\<close>.
\<close>

lemma to_double_small: "n < 2 ^ 53 \<Longrightarrow> to_double n = n"
  by (simp add: to_double_def)

lemma parseInt10_examples:
  "parseInt10 ''9007199254740993'' = Some 9007199254740992
   \<and> parseInt10 ''9007199254740995'' = Some 9007199254740996
   \<and> parseInt10 '' -12ab'' = Some (- 12)
   \<and> parseInt10 ''+7.9'' = Some 7
   \<and> parseInt10 ''0x10'' = Some 0
   \<and> parseInt10 ''many'' = None
   \<and> parseInt10 ''-'' = None"
  by (simp add: parseInt10_def is_ws_def is_digit_def digits_val_def to_double_def bit_len.simps Let_def)

lemma find_Some_mem: "find P xs = Some x \<Longrightarrow> x \<in> set xs \<and> P x"
  by (induction xs) (auto split: if_splits)

lemma list_ex_find: "list_ex P xs = (find P xs \<noteq> None)"
  by (induction xs) auto

lemma findIndex_None: "(findIndex P xs = None) = (\<not> list_ex P xs)"
  by (induction xs) auto

lemma findIndex_Some: "findIndex P xs = Some i \<Longrightarrow> i < length xs \<and> P (xs ! i)"
  by (induction xs arbitrary: i) (auto split: if_splits)

lemma list_all2_map_self: "(\<And>x. x \<in> set xs \<Longrightarrow> P x (f x)) \<Longrightarrow> list_all2 P xs (map f xs)"
  by (induction xs) auto

lemma list_all2_update:
  assumes "idx < length xs" and "R (xs ! idx) y" and "\<And>x. R x x"
  shows "list_all2 R xs (xs[idx := y])"
  using assms by (simp add: list_all2_conv_all_nth nth_list_update)

lemma length_filter_conj_le: "length (filter (\<lambda>x. Q x \<and> P x) xs) \<le> length (filter P xs)"
  by (induction xs) auto

lemma filter_deleteOne_le: "length (filter P (deleteOne Q xs)) \<le> length (filter P xs)"
  by (induction xs) auto

lemma set_deleteOne: "set (deleteOne Q xs) \<subseteq> set xs"
  by (induction xs) auto

lemma mem_deleteOne: "x \<in> set xs \<Longrightarrow> \<not> Q x \<Longrightarrow> x \<in> set (deleteOne Q xs)"
  by (induction xs) auto

lemma deleteOne_distinct:
  "distinct (map f xs) \<Longrightarrow> deleteOne (\<lambda>x. f x = k) xs = filter (\<lambda>x. f x \<noteq> k) xs"
proof (induction xs)
  case Nil
  then show ?case by simp
next
  case (Cons x xs)
  show ?case
  proof (cases "f x = k")
    case True
    from Cons.prems have "f x \<notin> f ` set xs" by simp
    with True have "\<forall>y \<in> set xs. f y \<noteq> k" by blast
    then have "filter (\<lambda>x. f x \<noteq> k) xs = xs" by (simp add: filter_id_conv)
    with True show ?thesis by simp
  next
    case False
    with Cons show ?thesis by simp
  qed
qed

lemma distinct_ids_eq:
  "distinct (map ps_id ps) \<Longrightarrow> p \<in> set ps \<Longrightarrow> q \<in> set ps \<Longrightarrow> ps_id p = ps_id q \<Longrightarrow> p = q"
  by (meson distinct_map inj_onD)

lemma below_integer_step:
  assumes "m = of_int \<lfloor>m\<rfloor>" and "real n < m"
  shows "real (Suc n) \<le> m"
proof -
  from assms have "of_int (int n) < (of_int \<lfloor>m\<rfloor> :: real)" by simp
  then have "int n < \<lfloor>m\<rfloor>" by (simp only: of_int_less_iff)
  then have "int (Suc n) \<le> \<lfloor>m\<rfloor>" by simp
  then have "(of_int (int (Suc n)) :: real) \<le> of_int \<lfloor>m\<rfloor>" by (simp only: of_int_le_iff)
  with assms(1) show ?thesis by simp
qed

lemma insertMany_ps_added:
  "insertMany_ps docs coll = (e, coll') \<Longrightarrow>
     \<exists>added. coll' = coll @ added \<and> set added \<subseteq> set docs
       \<and> (\<forall>q \<in> set added. ps_id q \<notin> ps_id ` set coll)"
proof (induction docs arbitrary: coll)
  case Nil
  then show ?case by simp
next
  case (Cons doc docs)
  show ?case
  proof (cases "list_ex (\<lambda>p. ps_id p = ps_id doc) coll")
    case True
    with Cons.prems show ?thesis by (simp add: insertOne_ps_def)
  next
    case False
    with Cons.prems have "insertMany_ps docs (coll @ [doc]) = (e, coll')"
      by (simp add: insertOne_ps_def)
    from Cons.IH[OF this] obtain added where a: "coll' = (coll @ [doc]) @ added"
      "set added \<subseteq> set docs" "\<forall>q \<in> set added. ps_id q \<notin> ps_id ` set (coll @ [doc])"
      by blast
    from False have "ps_id doc \<notin> ps_id ` set coll" by (auto simp: list_ex_iff)
    with a have "coll' = coll @ (doc # added) \<and> set (doc # added) \<subseteq> set (doc # docs)
       \<and> (\<forall>q \<in> set (doc # added). ps_id q \<notin> ps_id ` set coll)"
      by auto
    then show ?thesis by blast
  qed
qed

text \<open>
  Trimming a trimmed string changes nothing, so the team numbers the Mongo
  store records are trimmed.
\<close>

lemma dropWhile_rev_dropWhile:
  "dropWhile P (rev (dropWhile P (rev (dropWhile P xs)))) = rev (dropWhile P (rev (dropWhile P xs)))"
proof (cases "dropWhile P xs")
  case Nil
  then show ?thesis by (simp only: rev.simps dropWhile.simps)
next
  case (Cons x a)
  then have nx: "\<not> P x" using hd_dropWhile[of P xs] by fastforce
  have "dropWhile P (rev (x # a)) = dropWhile P (rev a) @ [x]"
  proof (cases "\<forall>y \<in> set (rev a). P y")
    case True
    then have "dropWhile P (rev a) = []" by (simp only: dropWhile_eq_Nil_conv)
    moreover from True have "dropWhile P (rev a @ [x]) = dropWhile P [x]"
      by (intro dropWhile_append2) simp
    ultimately show ?thesis using nx by simp
  next
    case False
    then obtain y where "y \<in> set (rev a)" "\<not> P y" by blast
    then have "dropWhile P (rev a @ [x]) = dropWhile P (rev a) @ [x]"
      by (rule dropWhile_append1)
    then show ?thesis by simp
  qed
  with Cons nx show ?thesis by simp
qed

lemma trim_idem: "trim (trim s) = trim s"
  unfolding trim_def by (simp add: dropWhile_rev_dropWhile)

text \<open>
  The counting loop of \<^verbatim>\<open>getAllProblemStatements\<close> leaves under each id the number
  of registrations that reference it.
\<close>

lemma idToCount_foldl:
  "count_or_zero (foldl (\<lambda>m r. m(problemStatementId r \<mapsto> count_or_zero (m (problemStatementId r)) + 1)) m0 rs k)
     = count_or_zero (m0 k) + length (filter (\<lambda>r. problemStatementId r = k) rs)"
  by (induction rs arbitrary: m0) (auto simp: count_or_zero_def)

lemma idToCount_count:
  "count_or_zero (idToCount rs k) = length (filter (\<lambda>r. problemStatementId r = k) rs)"
  unfolding idToCount_def idToCount_foldl by (simp add: count_or_zero_def)

text \<open>
  The documents the stores insert, and what an update of the Mongo store keeps.
\<close>

lemma document_id [simp]:
  "ps_id (DatabaseManager_document p) = ps_id p" "ps_id (MongoStore_document p) = ps_id p"
  by (simp_all add: DatabaseManager_document_def MongoStore_document_def)

lemma statement_id: "ps_id (statement i m) = i"
  by (simp add: statement_def)

lemma MongoStore_document_capacity: "numeric_capacity (maxSelections (MongoStore_document p))"
  by (simp add: MongoStore_document_def numeric_capacity_def maxSel_def)

lemma MongoStore_set_capacity:
  "numeric_capacity (maxSelections p) \<Longrightarrow> numeric_capacity (maxSelections (MongoStore_set u p))"
  by (simp add: MongoStore_set_def set_if_defined_def numeric_capacity_def maxSel_def Let_def)

lemma positive_integer_maxSel: "positive_integer (JNum m) \<Longrightarrow> maxSel (JNum m) = m"
  by (simp add: positive_integer_def maxSel_def)

lemma frame_merge: "frame_ok u p (DatabaseManager_merge u p)"
  by (simp add: frame_ok_def DatabaseManager_merge_def set_if_defined_def)

lemma frame_set: "frame_ok u p (MongoStore_set u p)"
  by (simp add: frame_ok_def MongoStore_set_def set_if_defined_def Let_def)

text \<open>
  The catalog operations leave the ledger alone.
\<close>

lemma registrations_create [simp]:
  "registrations (snd (DatabaseManager_createProblemStatement p d)) = registrations d"
  "registrations (snd (MongoStore_createProblemStatement p d)) = registrations d"
  by (simp_all add: DatabaseManager_createProblemStatement_def MongoStore_createProblemStatement_def
        split: sum.splits)

lemma registrations_update [simp]:
  "registrations (snd (DatabaseManager_updateProblemStatement i u d)) = registrations d"
  "registrations (snd (MongoStore_updateProblemStatement i u d)) = registrations d"
  by (simp_all add: DatabaseManager_updateProblemStatement_def MongoStore_updateProblemStatement_def
        Let_def split: option.splits)

lemma registrations_import [simp]:
  "registrations (DatabaseManager_importFromJSON j d) = registrations d"
  "registrations (snd (MongoStore_importFromJSON j d)) = registrations d"
  by (simp_all add: DatabaseManager_importFromJSON_def MongoStore_importFromJSON_def
        Let_def split: option.splits prod.splits)

section \<open>The two outcomes of a registration\<close>

text \<open>
  Either store answers \<^verbatim>\<open>null\<close> and leaves the state as it was, or it found the
  requested statement with room left and no registration of the team number,
  and appended one record.
\<close>

lemma DatabaseManager_register_cases:
  "DatabaseManager_createRegistrationAtomic S now r d = (None, d)
   \<or> (\<exists>p. find (\<lambda>p. ps_id p = problemStatementId r) (problemStatements d) = Some p
        \<and> \<not> js_ge S (count_for d (ps_id p)) (maxSelections p)
        \<and> \<not> list_ex (\<lambda>x. teamNumber x = teamNumber r) (registrations d)
        \<and> DatabaseManager_createRegistrationAtomic S now r d =
            (Some \<lparr> res_id = teamNumber r, changes = 1 \<rparr>,
             d \<lparr> registrations := registrations d @ [registration_record (teamNumber r) r now] \<rparr>))"
  by (auto simp: DatabaseManager_createRegistrationAtomic_def count_for_def Let_def
        registration_record_def split: option.splits)

lemma MongoStore_register_cases:
  "MongoStore_createRegistrationAtomic now r d = (None, d)
   \<or> (\<exists>p. find (\<lambda>p. ps_id p = problemStatementId r) (problemStatements d) = Some p
        \<and> real (count_for d (ps_id p)) < maxSel (maxSelections p)
        \<and> \<not> list_ex (\<lambda>x. teamNumber x = trim (teamNumber r)) (registrations d)
        \<and> MongoStore_createRegistrationAtomic now r d =
            (Some \<lparr> res_id = trim (teamNumber r), changes = 1 \<rparr>,
             d \<lparr> registrations := registrations d @ [registration_record (trim (teamNumber r)) r now] \<rparr>))"
  by (auto simp: MongoStore_createRegistrationAtomic_def count_for_def Let_def list_ex_find
        registration_record_def insertOne_regs_def split: option.splits sum.splits)

section \<open>Capacity\<close>

lemma count_for_append:
  "count_for (d \<lparr> registrations := registrations d @ [rec] \<rparr>) i
     = count_for d i + (if problemStatementId rec = i then 1 else 0)"
  by (simp add: count_for_def)

lemma capacity_inv_append:
  assumes wf: "wf_catalog d" and inv: "capacity_inv d"
    and found: "find (\<lambda>p. ps_id p = pid) (problemStatements d) = Some p"
    and room: "\<And>m. maxSelections p = JNum m \<Longrightarrow> real (count_for d (ps_id p)) < m"
    and rec: "problemStatementId rec = pid"
  shows "capacity_inv (d \<lparr> registrations := registrations d @ [rec] \<rparr>)"
proof -
  let ?d' = "d \<lparr> registrations := registrations d @ [rec] \<rparr>"
  from found have p: "p \<in> set (problemStatements d)" "ps_id p = pid"
    using find_Some_mem by fastforce+
  have "within_capacity ?d' q" if q: "q \<in> set (problemStatements d)" for q
  proof (cases "ps_id q = pid")
    case True
    from wf have "distinct (map ps_id (problemStatements d))" by (simp add: wf_catalog_def)
    from distinct_ids_eq[OF this q p(1)] True p(2) have "q = p" by simp
    from wf p(1) have "positive_integer (maxSelections p)"
      by (simp add: wf_catalog_def list_all_iff)
    then obtain m where m: "maxSelections p = JNum m" "m = of_int \<lfloor>m\<rfloor>"
      by (auto simp: positive_integer_def split: jsval.splits)
    from room[OF m(1)] m(2) have "real (Suc (count_for d (ps_id p))) \<le> m"
      by (rule below_integer_step[rotated])
    with m(1) p(2) rec \<open>q = p\<close> show ?thesis
      by (simp add: within_capacity_def count_for_append)
  next
    case False
    from inv q have "within_capacity d q" by (simp add: capacity_inv_def list_all_iff)
    with False rec show ?thesis
      by (simp add: within_capacity_def count_for_append split: jsval.splits)
  qed
  then show ?thesis by (simp add: capacity_inv_def list_all_iff)
qed

lemma DatabaseManager_register_capacity:
  assumes "wf_catalog d" and "capacity_inv d"
  shows "capacity_inv (snd (DatabaseManager_createRegistrationAtomic S now r d))"
  using DatabaseManager_register_cases[of S now r d]
proof (elim disjE exE conjE)
  assume "DatabaseManager_createRegistrationAtomic S now r d = (None, d)"
  with assms(2) show ?thesis by simp
next
  fix p
  assume f: "find (\<lambda>p. ps_id p = problemStatementId r) (problemStatements d) = Some p"
    and room: "\<not> js_ge S (count_for d (ps_id p)) (maxSelections p)"
    and eq: "DatabaseManager_createRegistrationAtomic S now r d =
            (Some \<lparr> res_id = teamNumber r, changes = 1 \<rparr>,
             d \<lparr> registrations := registrations d @ [registration_record (teamNumber r) r now] \<rparr>)"
  have "capacity_inv (d \<lparr> registrations := registrations d @ [registration_record (teamNumber r) r now] \<rparr>)"
  proof (rule capacity_inv_append[OF assms f])
    fix m assume "maxSelections p = JNum m"
    with room show "real (count_for d (ps_id p)) < m" by (simp add: js_ge_def)
  qed (simp add: registration_record_def)
  with eq show ?thesis by simp
qed

lemma MongoStore_register_capacity:
  assumes "wf_catalog d" and "capacity_inv d"
  shows "capacity_inv (snd (MongoStore_createRegistrationAtomic now r d))"
  using MongoStore_register_cases[of now r d]
proof (elim disjE exE conjE)
  assume "MongoStore_createRegistrationAtomic now r d = (None, d)"
  with assms(2) show ?thesis by simp
next
  fix p
  assume f: "find (\<lambda>p. ps_id p = problemStatementId r) (problemStatements d) = Some p"
    and room: "real (count_for d (ps_id p)) < maxSel (maxSelections p)"
    and eq: "MongoStore_createRegistrationAtomic now r d =
            (Some \<lparr> res_id = trim (teamNumber r), changes = 1 \<rparr>,
             d \<lparr> registrations := registrations d @ [registration_record (trim (teamNumber r)) r now] \<rparr>)"
  from f have "p \<in> set (problemStatements d)" using find_Some_mem by fastforce
  with assms(1) have pos: "positive_integer (maxSelections p)"
    by (simp add: wf_catalog_def list_all_iff)
  have "capacity_inv (d \<lparr> registrations := registrations d @ [registration_record (trim (teamNumber r)) r now] \<rparr>)"
  proof (rule capacity_inv_append[OF assms f])
    fix m assume "maxSelections p = JNum m"
    with room pos show "real (count_for d (ps_id p)) < m" by (simp add: positive_integer_maxSel)
  qed (simp add: registration_record_def)
  with eq show ?thesis by simp
qed

lemma capacity_inv_shrink:
  assumes inv: "capacity_inv d"
    and sub: "set (problemStatements d') \<subseteq> set (problemStatements d)"
    and le: "\<And>i. count_for d' i \<le> count_for d i"
  shows "capacity_inv d'"
proof -
  have "within_capacity d' q" if q: "q \<in> set (problemStatements d')" for q
  proof -
    from inv sub q have "within_capacity d q" by (auto simp: capacity_inv_def list_all_iff)
    then obtain m where m: "maxSelections q = JNum m" "real (count_for d (ps_id q)) \<le> m"
      by (auto simp: within_capacity_def split: jsval.splits)
    from le[of "ps_id q"] have "real (count_for d' (ps_id q)) \<le> real (count_for d (ps_id q))"
      by simp
    with m show ?thesis by (simp add: within_capacity_def)
  qed
  then show ?thesis by (simp add: capacity_inv_def list_all_iff)
qed

lemma deleteRegistration_capacity:
  assumes "capacity_inv d"
  shows "capacity_inv (snd (DatabaseManager_deleteRegistration tn d))"
    and "capacity_inv (snd (MongoStore_deleteRegistration tn d))"
proof -
  show "capacity_inv (snd (DatabaseManager_deleteRegistration tn d))"
    by (rule capacity_inv_shrink[OF assms])
       (simp_all add: DatabaseManager_deleteRegistration_def Let_def count_for_def
          length_filter_conj_le)
  show "capacity_inv (snd (MongoStore_deleteRegistration tn d))"
    by (rule capacity_inv_shrink[OF assms])
       (simp_all add: MongoStore_deleteRegistration_def Let_def count_for_def
          filter_deleteOne_le)
qed

lemma deleteProblemStatement_capacity:
  assumes "capacity_inv d"
  shows "capacity_inv (snd (DatabaseManager_deleteProblemStatement i d))"
    and "capacity_inv (snd (MongoStore_deleteProblemStatement i d))"
proof -
  show "capacity_inv (snd (DatabaseManager_deleteProblemStatement i d))"
    by (rule capacity_inv_shrink[OF assms])
       (simp_all add: DatabaseManager_deleteProblemStatement_def Let_def count_for_def
          length_filter_conj_le)
  show "capacity_inv (snd (MongoStore_deleteProblemStatement i d))"
    by (rule capacity_inv_shrink[OF assms])
       (simp_all add: MongoStore_deleteProblemStatement_def Let_def count_for_def
          length_filter_conj_le set_deleteOne)
qed

lemma no_dangling_count:
  assumes "\<not> dangling d" and "i \<notin> ps_id ` set (problemStatements d)"
  shows "count_for d i = 0"
proof -
  have "problemStatementId r \<noteq> i" if "r \<in> set (registrations d)" for r
  proof -
    from assms(1) that obtain p where "p \<in> set (problemStatements d)" "ps_id p = problemStatementId r"
      by (auto simp: dangling_def list_ex_iff)
    then have "problemStatementId r \<in> ps_id ` set (problemStatements d)" by force
    with assms(2) show ?thesis by blast
  qed
  then show ?thesis by (simp add: count_for_def filter_empty_conv)
qed

lemma capacity_inv_added:
  assumes inv: "capacity_inv d" and nd: "\<not> dangling d"
    and new: "\<forall>q \<in> set added. ps_id q \<notin> ps_id ` set (problemStatements d)"
    and cap: "\<forall>q \<in> set added. numeric_capacity (maxSelections q)"
  shows "capacity_inv (d \<lparr> problemStatements := problemStatements d @ added \<rparr>)"
proof -
  let ?d' = "d \<lparr> problemStatements := problemStatements d @ added \<rparr>"
  have c: "count_for ?d' i = count_for d i" for i by (simp add: count_for_def)
  have "within_capacity ?d' q" if "q \<in> set (problemStatements d)" for q
  proof -
    from inv that have "within_capacity d q" by (simp add: capacity_inv_def list_all_iff)
    then show ?thesis unfolding within_capacity_def c .
  qed
  moreover have "within_capacity ?d' q" if q: "q \<in> set added" for q
  proof -
    from new q have "count_for d (ps_id q) = 0" by (intro no_dangling_count[OF nd]) simp
    moreover from cap q obtain m where "maxSelections q = JNum m" "1 \<le> m"
      by (cases "maxSelections q") (auto simp: numeric_capacity_def)
    ultimately show ?thesis by (simp add: within_capacity_def c)
  qed
  ultimately show ?thesis by (auto simp: capacity_inv_def list_all_iff)
qed

lemma MongoStore_create_capacity:
  assumes "capacity_inv d" and "\<not> dangling d"
  shows "capacity_inv (snd (MongoStore_createProblemStatement p d))"
proof (cases "list_ex (\<lambda>q. ps_id q = ps_id p) (problemStatements d)")
  case True
  with assms(1) show ?thesis
    by (simp add: MongoStore_createProblemStatement_def insertOne_ps_def)
next
  case False
  then have "ps_id (MongoStore_document p) \<notin> ps_id ` set (problemStatements d)"
    by (auto simp: list_ex_iff)
  with capacity_inv_added[OF assms, of "[MongoStore_document p]"] False show ?thesis
    by (simp add: MongoStore_createProblemStatement_def insertOne_ps_def MongoStore_document_capacity)
qed

lemma MongoStore_import_capacity:
  assumes "capacity_inv d" and "\<not> dangling d"
  shows "capacity_inv (snd (MongoStore_importFromJSON j d))"
proof (cases j)
  case None
  with assms(1) show ?thesis by (simp add: MongoStore_importFromJSON_def)
next
  case (Some items)
  let ?ins = "map MongoStore_document (filter (\<lambda>psItem. ps_id psItem \<notin> set (map ps_id (problemStatements d))) items)"
  obtain e coll where r: "insertMany_ps ?ins (problemStatements d) = (e, coll)"
    by (cases "insertMany_ps ?ins (problemStatements d)")
  from insertMany_ps_added[OF r] obtain added where a: "coll = problemStatements d @ added"
    "set added \<subseteq> set ?ins" "\<forall>q \<in> set added. ps_id q \<notin> ps_id ` set (problemStatements d)"
    by blast
  from a(2) have "\<forall>q \<in> set added. numeric_capacity (maxSelections q)"
    by (auto simp: MongoStore_document_capacity)
  from capacity_inv_added[OF assms a(3) this] a(1) r assms(1) Some show ?thesis
    by (simp add: MongoStore_importFromJSON_def Let_def)
qed

lemma full_rejected:
  assumes wf: "wf_catalog d" and full: "problem_full d (problemStatementId r)"
  shows "DatabaseManager_createRegistrationAtomic S now r d = (None, d)"
    and "MongoStore_createRegistrationAtomic now r d = (None, d)"
proof -
  from full obtain p m where f: "find (\<lambda>p. ps_id p = problemStatementId r) (problemStatements d) = Some p"
    and m: "maxSelections p = JNum m" "m \<le> real (count_for d (ps_id p))"
    by (auto simp: problem_full_def split: option.splits jsval.splits)
  from f m show "DatabaseManager_createRegistrationAtomic S now r d = (None, d)"
    by (simp add: DatabaseManager_createRegistrationAtomic_def js_ge_def count_for_def)
  from f have "p \<in> set (problemStatements d)" using find_Some_mem by fastforce
  with wf have "positive_integer (maxSelections p)"
    by (simp add: wf_catalog_def list_all_iff)
  with m(1) have "maxSel (maxSelections p) = m"
    by (simp add: positive_integer_maxSel)
  with f m show "MongoStore_createRegistrationAtomic now r d = (None, d)"
    by (simp add: MongoStore_createRegistrationAtomic_def count_for_def Let_def split: option.splits)
qed

lemma full_response:
  assumes "DatabaseManager_createRegistrationAtomic S now r d = (None, d)"
    and "teamNumber r \<noteq> []" "teamName r \<noteq> []" "teamLeader r \<noteq> []" "problemStatementId r \<noteq> []"
    and "\<not> DatabaseManager_isTeamNumberTaken (teamNumber r) d"
    and "DatabaseManager_getProblemStatementById (problemStatementId r) d \<noteq> None"
  shows "app_post_register S now r d = (FullOrTaken409, d)"
  using assms by (auto simp: app_post_register_def post_register_def)

text \<open>
  Claim C1, as amended. On a catalog with unique ids whose \<^verbatim>\<open>maxSelections\<close> are
  integers of at least 1, and a ledger within capacity: registering, deleting a
  registration and deleting a problem statement keep the ledger within capacity
  in both stores; so do \<^verbatim>\<open>createProblemStatement\<close> and \<^verbatim>\<open>importFromJSON\<close> of
  the Mongo store when no registration dangles. A registration for a statement
  whose count is not strictly less than its \<^verbatim>\<open>maxSelections\<close> is refused by
  both stores with the state unchanged, and the handler answers it with 409
  \<^verbatim>\<open>Problem statement is full or team already registered.\<close> when the fields
  are present and the team number is free.
\<close>

theorem register_keeps_capacity:
  assumes "wf_catalog d" and "capacity_inv d"
  shows "capacity_inv (snd (DatabaseManager_createRegistrationAtomic S now r d))
       \<and> capacity_inv (snd (MongoStore_createRegistrationAtomic now r d))
       \<and> capacity_inv (snd (DatabaseManager_deleteRegistration tn d))
       \<and> capacity_inv (snd (MongoStore_deleteRegistration tn d))
       \<and> capacity_inv (snd (DatabaseManager_deleteProblemStatement i d))
       \<and> capacity_inv (snd (MongoStore_deleteProblemStatement i d))
       \<and> (\<not> dangling d \<longrightarrow>
             capacity_inv (snd (MongoStore_createProblemStatement p d))
           \<and> capacity_inv (snd (MongoStore_importFromJSON j d)))
       \<and> (problem_full d (problemStatementId r) \<longrightarrow>
             DatabaseManager_createRegistrationAtomic S now r d = (None, d)
           \<and> MongoStore_createRegistrationAtomic now r d = (None, d)
           \<and> (teamNumber r \<noteq> [] \<and> teamName r \<noteq> [] \<and> teamLeader r \<noteq> []
                \<and> problemStatementId r \<noteq> []
                \<and> \<not> DatabaseManager_isTeamNumberTaken (teamNumber r) d
              \<longrightarrow> app_post_register S now r d = (FullOrTaken409, d)))"
proof -
  have "app_post_register S now r d = (FullOrTaken409, d)"
    if full: "problem_full d (problemStatementId r)"
      and ne: "teamNumber r \<noteq> []" "teamName r \<noteq> []" "teamLeader r \<noteq> []"
        "problemStatementId r \<noteq> []"
      and free: "\<not> DatabaseManager_isTeamNumberTaken (teamNumber r) d"
  proof -
    from full have found: "DatabaseManager_getProblemStatementById (problemStatementId r) d \<noteq> None"
      by (auto simp: problem_full_def DatabaseManager_getProblemStatementById_def split: option.splits)
    from full_rejected(1)[OF assms(1) full] ne free found show ?thesis
      by (intro full_response) auto
  qed
  with DatabaseManager_register_capacity[OF assms] MongoStore_register_capacity[OF assms]
    deleteRegistration_capacity[OF assms(2)] deleteProblemStatement_capacity[OF assms(2)]
    full_rejected[OF assms(1)] MongoStore_create_capacity[OF assms(2)]
    MongoStore_import_capacity[OF assms(2)]
  show ?thesis by blast
qed

theorem register_keeps_capacity_witness:
  "wf_catalog scenario \<and> capacity_inv scenario \<and> problem_full scenario ''ps001''
   \<and> \<not> dangling scenario
   \<and> capacity_inv (snd (MongoStore_createProblemStatement (statement ''ps004'' (JNum 0)) scenario))
   \<and> capacity_inv (snd (DatabaseManager_createRegistrationAtomic (\<lambda>s. None) ''2025-01-01T11:00:00.000Z'' (request ''T3'' ''ps002'') scenario))
   \<and> capacity_inv (snd (MongoStore_createRegistrationAtomic ''2025-01-01T11:00:00.000Z'' (request ''T3'' ''ps002'') scenario))
   \<and> fst (DatabaseManager_createRegistrationAtomic (\<lambda>s. None) ''2025-01-01T11:00:00.000Z'' (request ''T3'' ''ps002'') scenario)
       = Some \<lparr> res_id = ''T3'', changes = 1 \<rparr>
   \<and> DatabaseManager_createRegistrationAtomic (\<lambda>s. None) ''2025-01-01T11:00:00.000Z'' (request ''T3'' ''ps001'') scenario = (None, scenario)
   \<and> MongoStore_createRegistrationAtomic ''2025-01-01T11:00:00.000Z'' (request ''T3'' ''ps001'') scenario = (None, scenario)
   \<and> app_post_register (\<lambda>s. None) ''2025-01-01T11:00:00.000Z'' (request ''T3'' ''ps001'') scenario = (FullOrTaken409, scenario)"
proof -
  have wf: "wf_catalog scenario"
    by (simp add: wf_catalog_def scenario_def defaults_def positive_integer_def)
  have inv: "capacity_inv scenario"
    by (simp add: capacity_inv_def within_capacity_def count_for_def scenario_def defaults_def
          registration_record_def request_def)
  have full: "problem_full scenario ''ps001''"
    by (simp add: problem_full_def count_for_def scenario_def defaults_def
          registration_record_def request_def)
  have free: "\<not> DatabaseManager_isTeamNumberTaken ''T3'' scenario"
    by (simp add: DatabaseManager_isTeamNumberTaken_def scenario_def registration_record_def request_def)
  have nd: "\<not> dangling scenario"
    by (simp add: dangling_def scenario_def defaults_def registration_record_def request_def)
  have ok: "fst (DatabaseManager_createRegistrationAtomic (\<lambda>s. None) ''2025-01-01T11:00:00.000Z'' (request ''T3'' ''ps002'') scenario)
       = Some \<lparr> res_id = ''T3'', changes = 1 \<rparr>"
    by (simp add: DatabaseManager_createRegistrationAtomic_def js_ge_def scenario_def defaults_def
          request_def registration_record_def Let_def)
  from register_keeps_capacity[OF wf inv, where S = "\<lambda>s. None" and now = "''2025-01-01T11:00:00.000Z''"
      and r = "request ''T3'' ''ps002''"]
    register_keeps_capacity[OF wf inv, where S = "\<lambda>s. None" and now = "''2025-01-01T11:00:00.000Z''"
      and r = "request ''T3'' ''ps001''" and p = "statement ''ps004'' (JNum 0)"]
    wf inv full free nd ok
  show ?thesis by (simp add: request_def)
qed

text \<open>
  The claim as stated says that every operation keeps the invariant.
  \<^verbatim>\<open>updateProblemStatement\<close> does not compare the new \<^verbatim>\<open>maxSelections\<close> with the
  ledger: with two teams registered for \<^verbatim>\<open>ps001\<close>, lowering its
  \<^verbatim>\<open>maxSelections\<close> to 1 is accepted by both stores and leaves two registrations
  for a capacity of one.
\<close>

theorem update_breaks_capacity:
  "wf_catalog scenario \<and> capacity_inv scenario
   \<and> wf_catalog (snd (DatabaseManager_updateProblemStatement ''ps001'' (no_updates \<lparr> maxSelections := JNum 1 \<rparr>) scenario))
   \<and> \<not> capacity_inv (snd (DatabaseManager_updateProblemStatement ''ps001'' (no_updates \<lparr> maxSelections := JNum 1 \<rparr>) scenario))
   \<and> \<not> capacity_inv (snd (MongoStore_updateProblemStatement ''ps001'' (no_updates \<lparr> maxSelections := JNum 1 \<rparr>) scenario))"
  by (simp add: wf_catalog_def capacity_inv_def within_capacity_def count_for_def scenario_def defaults_def
        positive_integer_def registration_record_def request_def no_updates_def
        DatabaseManager_updateProblemStatement_def DatabaseManager_merge_def set_if_defined_def
        MongoStore_updateProblemStatement_def MongoStore_set_def nullish_or_def maxSel_def Let_def)

section \<open>The result of a registration\<close>

text \<open>
  Claim C2, as amended. A call of \<^verbatim>\<open>createRegistrationAtomic\<close> either answers
  \<^verbatim>\<open>null\<close> and leaves catalog and ledger unchanged, or appends exactly one
  registration, built from the request with \<^verbatim>\<open>registrationDateTime\<close> set to the
  time string read during the call, leaves the catalog unchanged and answers
  \<^verbatim>\<open>{ id: teamNumber, changes: 1 }\<close>. The file-backed store records the team
  number as given, the Mongo store records it trimmed.
\<close>

theorem register_dichotomy:
  "(DatabaseManager_createRegistrationAtomic S now r d = (None, d)
    \<or> DatabaseManager_createRegistrationAtomic S now r d =
         (Some \<lparr> res_id = teamNumber r, changes = 1 \<rparr>,
          d \<lparr> registrations := registrations d @ [registration_record (teamNumber r) r now] \<rparr>))
   \<and> (MongoStore_createRegistrationAtomic now r d = (None, d)
    \<or> MongoStore_createRegistrationAtomic now r d =
         (Some \<lparr> res_id = trim (teamNumber r), changes = 1 \<rparr>,
          d \<lparr> registrations := registrations d @ [registration_record (trim (teamNumber r)) r now] \<rparr>))
   \<and> registrationDateTime (registration_record tn r now) = now
   \<and> teamNumber (registration_record tn r now) = tn
   \<and> problemStatementId (registration_record tn r now) = problemStatementId r"
  using DatabaseManager_register_cases[of S now r d] MongoStore_register_cases[of now r d]
  by (auto simp: registration_record_def)

text \<open>
  The claim as stated has the call return the registration. The answer carries
  the team number and a count only: two requests of team T1, for different
  statements at different times, append different registrations and get the
  same answer.
\<close>

theorem result_is_not_the_registration:
  "fst (DatabaseManager_createRegistrationAtomic (\<lambda>s. None) ''2025-01-01T10:00:00.000Z'' (request ''T1'' ''ps001'') start)
     = fst (DatabaseManager_createRegistrationAtomic (\<lambda>s. None) ''2025-01-02T09:30:00.000Z'' (request ''T1'' ''ps002'') start)
   \<and> registrations (snd (DatabaseManager_createRegistrationAtomic (\<lambda>s. None) ''2025-01-01T10:00:00.000Z'' (request ''T1'' ''ps001'') start))
     \<noteq> registrations (snd (DatabaseManager_createRegistrationAtomic (\<lambda>s. None) ''2025-01-02T09:30:00.000Z'' (request ''T1'' ''ps002'') start))
   \<and> fst (DatabaseManager_createRegistrationAtomic (\<lambda>s. None) ''2025-01-01T10:00:00.000Z'' (request ''T1'' ''ps001'') start)
     = Some \<lparr> res_id = ''T1'', changes = 1 \<rparr>
   \<and> fst (MongoStore_createRegistrationAtomic ''2025-01-01T10:00:00.000Z'' (request ''T1'' ''ps001'') start)
     = fst (MongoStore_createRegistrationAtomic ''2025-01-02T09:30:00.000Z'' (request ''T1'' ''ps002'') start)
   \<and> registrations (snd (MongoStore_createRegistrationAtomic ''2025-01-01T10:00:00.000Z'' (request ''T1'' ''ps001'') start))
     \<noteq> registrations (snd (MongoStore_createRegistrationAtomic ''2025-01-02T09:30:00.000Z'' (request ''T1'' ''ps002'') start))"
  by (simp add: DatabaseManager_createRegistrationAtomic_def MongoStore_createRegistrationAtomic_def
        start_def defaults_def request_def registration_record_def js_ge_def maxSel_def
        insertOne_regs_def trim_def is_ws_def Let_def)

section \<open>Team numbers\<close>

text \<open>
  Claim C3 against the code. The file-backed store compares the team number as
  it arrives: with T1 registered, a request for \<^verbatim>\<open>" T1 "\<close> is not taken, passes
  the handler and is registered beside T1, where the Mongo store finds the
  trimmed number taken and refuses. A team number of three spaces is accepted
  by the handler and by both stores; the Mongo store records it as the empty
  string.
\<close>

theorem file_store_compares_untrimmed:
  "DatabaseManager_isTeamNumberTaken ''T1'' scenario
   \<and> \<not> DatabaseManager_isTeamNumberTaken '' T1 '' scenario
   \<and> app_post_register (\<lambda>s. None) ''2025-01-01T11:00:00.000Z'' (request '' T1 '' ''ps002'') scenario
       = (Success200 \<lparr> res_id = '' T1 '', changes = 1 \<rparr> (defaults ! 1),
          scenario \<lparr> registrations := registrations scenario @
             [registration_record '' T1 '' (request '' T1 '' ''ps002'') ''2025-01-01T11:00:00.000Z''] \<rparr>)
   \<and> MongoStore_isTeamNumberTaken '' T1 '' scenario
   \<and> MongoStore_createRegistrationAtomic ''2025-01-01T11:00:00.000Z'' (request '' T1 '' ''ps002'') scenario
       = (None, scenario)
   \<and> fst (app_post_register (\<lambda>s. None) ''2025-01-01T11:00:00.000Z'' (request ''   '' ''ps002'') scenario)
       = Success200 \<lparr> res_id = ''   '', changes = 1 \<rparr> (defaults ! 1)
   \<and> fst (MongoStore_createRegistrationAtomic ''2025-01-01T11:00:00.000Z'' (request ''   '' ''ps002'') scenario)
       = Some \<lparr> res_id = [], changes = 1 \<rparr>"
  by (simp add: app_post_register_def post_register_def DatabaseManager_isTeamNumberTaken_def
        DatabaseManager_getProblemStatementById_def DatabaseManager_createRegistrationAtomic_def
        MongoStore_isTeamNumberTaken_def MongoStore_createRegistrationAtomic_def insertOne_regs_def
        js_ge_def maxSel_def trim_def is_ws_def scenario_def defaults_def request_def
        registration_record_def Let_def)

text \<open>
  Every mutation of the Mongo store keeps a state in the shape that store
  writes, and the seeded store has it.
\<close>

lemma problemStatements_register [simp]:
  "problemStatements (snd (MongoStore_createRegistrationAtomic now r d)) = problemStatements d"
  "problemStatements (snd (DatabaseManager_createRegistrationAtomic S now r d)) = problemStatements d"
  using MongoStore_register_cases[of now r d] DatabaseManager_register_cases[of S now r d]
  by auto

lemma mongo_shaped_apply:
  assumes "mongo_shaped d"
  shows "mongo_shaped (MongoStore_apply m d)"
proof (cases m)
  case (CreateProblemStatement p)
  with assms show ?thesis
    by (auto simp: mongo_shaped_def MongoStore_createProblemStatement_def insertOne_ps_def
          MongoStore_document_capacity)
next
  case (UpdateProblemStatement i u)
  have "list_all (\<lambda>p. numeric_capacity (maxSelections p)) (xs[idx := MongoStore_set u (xs ! idx)])"
    if "list_all (\<lambda>p. numeric_capacity (maxSelections p)) xs" "idx < length xs" for xs idx
    using that by (auto simp: list_all_iff MongoStore_set_capacity dest!: set_update_subset_insert[THEN subsetD])
  with assms UpdateProblemStatement show ?thesis
    by (auto simp: mongo_shaped_def MongoStore_updateProblemStatement_def Let_def
          split: option.splits dest: findIndex_Some)
next
  case (DeleteProblemStatement i)
  with assms show ?thesis
    using set_deleteOne[of "\<lambda>p. ps_id p = i" "problemStatements d"]
    by (auto simp: mongo_shaped_def MongoStore_deleteProblemStatement_def Let_def list_all_iff)
next
  case (CreateRegistration now r)
  with assms MongoStore_register_cases[of now r d] show ?thesis
    by (auto simp: mongo_shaped_def registration_record_def trim_idem)
next
  case (DeleteRegistration tn)
  with assms show ?thesis
    using set_deleteOne[of "\<lambda>r. teamNumber r = trim tn" "registrations d"]
    by (auto simp: mongo_shaped_def MongoStore_deleteRegistration_def Let_def list_all_iff)
next
  case (ImportFromJSON j)
  show ?thesis
  proof (cases j)
    case None
    with assms ImportFromJSON show ?thesis by (simp add: MongoStore_importFromJSON_def)
  next
    case (Some items)
    let ?ins = "map MongoStore_document (filter (\<lambda>psItem. ps_id psItem \<notin> set (map ps_id (problemStatements d))) items)"
    obtain e coll where r: "insertMany_ps ?ins (problemStatements d) = (e, coll)"
      by (cases "insertMany_ps ?ins (problemStatements d)")
    from insertMany_ps_added[OF r] obtain added where a: "coll = problemStatements d @ added"
      "set added \<subseteq> set ?ins" by blast
    from a(2) have "\<forall>q \<in> set added. numeric_capacity (maxSelections q)"
      by (auto simp: MongoStore_document_capacity)
    with assms a(1) r Some ImportFromJSON show ?thesis
      by (auto simp: mongo_shaped_def MongoStore_importFromJSON_def Let_def list_all_iff)
  qed
qed

lemma mongo_shaped_after: "mongo_shaped d \<Longrightarrow> mongo_shaped (after_MongoStore ms d)"
  unfolding after_MongoStore_def by (induction ms arbitrary: d) (simp_all add: mongo_shaped_apply)

lemma mongo_shaped_start: "mongo_shaped start"
  by (simp add: mongo_shaped_def start_def defaults_def numeric_capacity_def)

lemma spared_survives:
  assumes "reg \<in> set (registrations d)" and "spares reg m"
  shows "reg \<in> set (registrations (DatabaseManager_apply S m d))"
    and "reg \<in> set (registrations (MongoStore_apply m d))"
proof -
  show "reg \<in> set (registrations (DatabaseManager_apply S m d))"
  proof (cases m)
    case (CreateRegistration now r)
    with assms(1) DatabaseManager_register_cases[of S now r d] show ?thesis by auto
  qed (use assms in \<open>auto simp: DatabaseManager_deleteProblemStatement_def
        DatabaseManager_deleteRegistration_def Let_def\<close>)
  show "reg \<in> set (registrations (MongoStore_apply m d))"
  proof (cases m)
    case (CreateRegistration now r)
    with assms(1) MongoStore_register_cases[of now r d] show ?thesis by auto
  qed (use assms in \<open>auto simp: MongoStore_deleteProblemStatement_def
        MongoStore_deleteRegistration_def Let_def mem_deleteOne\<close>)
qed

lemma spared_survives_all:
  assumes "reg \<in> set (registrations d)" and "list_all (spares reg) ms"
  shows "reg \<in> set (registrations (foldl (\<lambda>d m. DatabaseManager_apply S m d) d ms))"
    and "reg \<in> set (registrations (foldl (\<lambda>d m. MongoStore_apply m d) d ms))"
  using assms by (induction ms arbitrary: d) (simp_all add: spared_survives)

lemma taken_rejected:
  assumes "reg \<in> set (registrations d)"
  shows "teamNumber r = teamNumber reg \<Longrightarrow> DatabaseManager_isTeamNumberTaken (teamNumber r) d"
    and "teamNumber r = teamNumber reg \<Longrightarrow> DatabaseManager_createRegistrationAtomic S now r d = (None, d)"
    and "trim (teamNumber r) = teamNumber reg \<Longrightarrow> MongoStore_isTeamNumberTaken (teamNumber r) d"
    and "trim (teamNumber r) = teamNumber reg \<Longrightarrow> MongoStore_createRegistrationAtomic now r d = (None, d)"
proof -
  assume "teamNumber r = teamNumber reg"
  with assms have ex: "list_ex (\<lambda>x. teamNumber x = teamNumber r) (registrations d)"
    by (auto simp: list_ex_iff)
  then show "DatabaseManager_isTeamNumberTaken (teamNumber r) d"
    by (simp add: DatabaseManager_isTeamNumberTaken_def)
  from ex show "DatabaseManager_createRegistrationAtomic S now r d = (None, d)"
    by (simp add: DatabaseManager_createRegistrationAtomic_def)
next
  assume "trim (teamNumber r) = teamNumber reg"
  with assms have "list_ex (\<lambda>x. teamNumber x = trim (teamNumber r)) (registrations d)"
    by (auto simp: list_ex_iff)
  then have ex: "find (\<lambda>x. teamNumber x = trim (teamNumber r)) (registrations d) \<noteq> None"
    by (simp add: list_ex_find)
  then show "MongoStore_isTeamNumberTaken (teamNumber r) d"
    by (simp add: MongoStore_isTeamNumberTaken_def)
  from ex show "MongoStore_createRegistrationAtomic now r d = (None, d)"
    by (auto simp: MongoStore_createRegistrationAtomic_def)
qed

text \<open>
  Claim C9. Let a registration be in the ledger, and let any list of mutations
  follow that spares it. Then a request with its team number is refused: the
  file-backed store answers \<^verbatim>\<open>null\<close> and changes nothing, and the handler
  answers 409 \<^verbatim>\<open>Team number already registered.\<close> when the fields are
  present. The Mongo store refuses every request whose trimmed team number is
  the recorded one, which is how it records the team number of a request; in a
  state of the shape it writes, that is every request with the recorded team
  number.
\<close>

theorem committed_team_rejected:
  assumes "reg \<in> set (registrations d)" and "list_all (spares reg) ms"
  shows "(teamNumber r = teamNumber reg \<longrightarrow>
            DatabaseManager_createRegistrationAtomic S now r (after_DatabaseManager S ms d)
              = (None, after_DatabaseManager S ms d)
          \<and> (teamName r \<noteq> [] \<and> teamLeader r \<noteq> [] \<and> problemStatementId r \<noteq> [] \<and> teamNumber r \<noteq> [] \<longrightarrow>
               app_post_register S now r (after_DatabaseManager S ms d)
                 = (TeamTaken409, after_DatabaseManager S ms d)))
       \<and> (trim (teamNumber r) = teamNumber reg \<longrightarrow>
            MongoStore_createRegistrationAtomic now r (after_MongoStore ms d) = (None, after_MongoStore ms d)
          \<and> MongoStore_isTeamNumberTaken (teamNumber r) (after_MongoStore ms d))
       \<and> (mongo_shaped d \<and> teamNumber r = teamNumber reg \<longrightarrow>
            MongoStore_createRegistrationAtomic now r (after_MongoStore ms d) = (None, after_MongoStore ms d)
          \<and> MongoStore_isTeamNumberTaken (teamNumber r) (after_MongoStore ms d))"
proof -
  note in1 = spared_survives_all(1)[OF assms, of S, folded after_DatabaseManager_def]
  note in2 = spared_survives_all(2)[OF assms, folded after_MongoStore_def]
  have "trim (teamNumber r) = teamNumber reg" if "mongo_shaped d" "teamNumber r = teamNumber reg"
    using that assms(1) by (simp add: mongo_shaped_def list_all_iff)
  then show ?thesis
    using taken_rejected(1)[OF in1, of r] taken_rejected(2)[OF in1, of r S now]
      taken_rejected(3)[OF in2, of r] taken_rejected(4)[OF in2, of r now]
    by (auto simp: app_post_register_def post_register_def)
qed

theorem committed_team_rejected_witness:
  "registration_record ''T1'' (request ''T1'' ''ps001'') ''2025-01-01T10:00:00.000Z'' \<in> set (registrations scenario)
   \<and> list_all (spares (registration_record ''T1'' (request ''T1'' ''ps001'') ''2025-01-01T10:00:00.000Z'')) other_mutations
   \<and> mongo_shaped scenario
   \<and> DatabaseManager_createRegistrationAtomic (\<lambda>s. None) ''2025-01-01T13:00:00.000Z'' (request ''T1'' ''ps002'')
        (after_DatabaseManager (\<lambda>s. None) other_mutations scenario)
      = (None, after_DatabaseManager (\<lambda>s. None) other_mutations scenario)
   \<and> app_post_register (\<lambda>s. None) ''2025-01-01T13:00:00.000Z'' (request ''T1'' ''ps002'')
        (after_DatabaseManager (\<lambda>s. None) other_mutations scenario)
      = (TeamTaken409, after_DatabaseManager (\<lambda>s. None) other_mutations scenario)
   \<and> MongoStore_createRegistrationAtomic ''2025-01-01T13:00:00.000Z'' (request ''T1'' ''ps002'')
        (after_MongoStore other_mutations scenario)
      = (None, after_MongoStore other_mutations scenario)"
proof -
  have mem: "registration_record ''T1'' (request ''T1'' ''ps001'') ''2025-01-01T10:00:00.000Z'' \<in> set (registrations scenario)"
    by (simp add: scenario_def)
  have sp: "list_all (spares (registration_record ''T1'' (request ''T1'' ''ps001'') ''2025-01-01T10:00:00.000Z'')) other_mutations"
    by (simp add: other_mutations_def registration_record_def request_def trim_def is_ws_def)
  have t: "trim ''T1'' = ''T1''" by (simp add: trim_def is_ws_def)
  have ms: "mongo_shaped scenario"
    by (simp add: mongo_shaped_def scenario_def defaults_def numeric_capacity_def
          registration_record_def request_def trim_def is_ws_def)
  from committed_team_rejected[OF mem sp, of "request ''T1'' ''ps002''" "\<lambda>s. None" "''2025-01-01T13:00:00.000Z''"]
    mem sp t ms
  show ?thesis by (simp add: request_def registration_record_def)
qed

section \<open>The stored maxSelections\<close>

text \<open>
  Claim C4 against the code. \<^verbatim>\<open>createProblemStatement\<close> and \<^verbatim>\<open>importFromJSON\<close>
  of the file-backed store copy \<^verbatim>\<open>maxSelections\<close> as it comes: 0, a negative
  number and a string that is no number are stored unchanged. The Mongo store
  stores 1 for each of them.
\<close>

theorem file_store_keeps_raw_maxSelections:
  "map maxSelections (problemStatements (snd (DatabaseManager_createProblemStatement (statement ''ps004'' (JNum 0)) start)))
     = [JNum 2, JNum 2, JNum 2, JNum 0]
   \<and> map maxSelections (problemStatements (snd (DatabaseManager_createProblemStatement (statement ''ps004'' (JStr ''many'')) start)))
     = [JNum 2, JNum 2, JNum 2, JStr ''many'']
   \<and> map maxSelections (problemStatements (DatabaseManager_importFromJSON (Some [statement ''ps004'' (JNum (- 3))]) start))
     = [JNum 2, JNum 2, JNum 2, JNum (- 3)]
   \<and> map maxSelections (problemStatements (snd (MongoStore_createProblemStatement (statement ''ps004'' (JNum 0)) start)))
     = [JNum 2, JNum 2, JNum 2, JNum 1]
   \<and> map maxSelections (problemStatements (snd (MongoStore_createProblemStatement (statement ''ps004'' (JStr ''many'')) start)))
     = [JNum 2, JNum 2, JNum 2, JNum 1]
   \<and> map maxSelections (problemStatements (snd (MongoStore_importFromJSON (Some [statement ''ps004'' (JNum (- 3))]) start)))
     = [JNum 2, JNum 2, JNum 2, JNum 1]"
  by (simp add: DatabaseManager_createProblemStatement_def DatabaseManager_importFromJSON_def
        DatabaseManager_document_def MongoStore_createProblemStatement_def MongoStore_importFromJSON_def
        MongoStore_document_def insertOne_ps_def maxSel_def parseInt10_def is_ws_def is_digit_def
        start_def defaults_def statement_def Let_def)

section \<open>Deleting a problem statement\<close>

text \<open>
  Where \<^verbatim>\<open>deleteProblemStatement\<close> ends: the statement and every registration
  that references it are removed and every other registration is kept;
  \<^verbatim>\<open>getAllRegistrations\<close> then lists the views of the registrations that were
  kept, and no other. With unique ids both stores end in the same state.
\<close>

lemma cascade_delete:
  "snd (DatabaseManager_deleteProblemStatement i d)
     = \<lparr> problemStatements = filter (\<lambda>p. ps_id p \<noteq> i) (problemStatements d),
         registrations = filter (\<lambda>r. problemStatementId r \<noteq> i) (registrations d) \<rparr>
   \<and> registrations (snd (MongoStore_deleteProblemStatement i d))
       = filter (\<lambda>r. problemStatementId r \<noteq> i) (registrations d)
   \<and> (distinct (map ps_id (problemStatements d)) \<longrightarrow>
        snd (MongoStore_deleteProblemStatement i d) = snd (DatabaseManager_deleteProblemStatement i d))
   \<and> DatabaseManager_getAllRegistrations (snd (DatabaseManager_deleteProblemStatement i d))
       = map (reg_to_view (filter (\<lambda>p. ps_id p \<noteq> i) (problemStatements d)))
           (filter (\<lambda>r. problemStatementId r \<noteq> i) (registrations d))
   \<and> MongoStore_getAllRegistrations (snd (MongoStore_deleteProblemStatement i d))
       = map (reg_to_view (deleteOne (\<lambda>p. ps_id p = i) (problemStatements d)))
           (filter (\<lambda>r. problemStatementId r \<noteq> i) (registrations d))
   \<and> last (MongoStore_deleteProblemStatement_writes i d) = snd (MongoStore_deleteProblemStatement i d)"
  by (simp add: DatabaseManager_deleteProblemStatement_def MongoStore_deleteProblemStatement_def
        MongoStore_deleteProblemStatement_writes_def
        DatabaseManager_getAllRegistrations_def MongoStore_getAllRegistrations_def
        deleteOne_distinct Let_def)

lemma cascade_delete_example:
  "distinct (map ps_id (problemStatements scenario))
   \<and> snd (MongoStore_deleteProblemStatement ''ps001'' scenario)
       = \<lparr> problemStatements = tl defaults, registrations = [] \<rparr>
   \<and> snd (DatabaseManager_deleteProblemStatement ''ps001'' scenario)
       = \<lparr> problemStatements = tl defaults, registrations = [] \<rparr>
   \<and> DatabaseManager_getAllRegistrations (snd (DatabaseManager_deleteProblemStatement ''ps001'' scenario)) = []
   \<and> MongoStore_getAllRegistrations (snd (MongoStore_deleteProblemStatement ''ps001'' scenario)) = []"
proof -
  have dist: "distinct (map ps_id (problemStatements scenario))"
    by (simp add: scenario_def defaults_def)
  have fin: "snd (DatabaseManager_deleteProblemStatement ''ps001'' scenario)
       = \<lparr> problemStatements = tl defaults, registrations = [] \<rparr>"
    by (simp add: DatabaseManager_deleteProblemStatement_def scenario_def defaults_def
          registration_record_def request_def Let_def)
  from cascade_delete[of "''ps001''" scenario] dist fin show ?thesis
    by (simp add: DatabaseManager_getAllRegistrations_def MongoStore_getAllRegistrations_def)
qed

text \<open>
  Claim C5 against the code. The claim has the registrations deleted before the
  problem statement, so that no state in between holds a registration of a
  deleted statement. \<^verbatim>\<open>MongoStore.deleteProblemStatement\<close> calls \<^verbatim>\<open>ps.deleteOne\<close>
  first and \<^verbatim>\<open>regs.deleteMany\<close> second, outside any transaction: deleting
  \<^verbatim>\<open>ps001\<close>, for which T1 and T2 are registered, goes through a state in
  which \<^verbatim>\<open>ps001\<close> is gone and both registrations are still in the ledger. The
  file-backed store writes once, the state with statement and registrations
  removed, which is also where the Mongo store ends.
\<close>

theorem mongo_delete_leaves_dangling:
  "\<not> dangling scenario
   \<and> dangling (hd (MongoStore_deleteProblemStatement_writes ''ps001'' scenario))
   \<and> registrations (hd (MongoStore_deleteProblemStatement_writes ''ps001'' scenario)) = registrations scenario
   \<and> problemStatements (hd (MongoStore_deleteProblemStatement_writes ''ps001'' scenario)) = tl defaults
   \<and> last (MongoStore_deleteProblemStatement_writes ''ps001'' scenario)
       = \<lparr> problemStatements = tl defaults, registrations = [] \<rparr>
   \<and> DatabaseManager_deleteProblemStatement_writes ''ps001'' scenario
       = [\<lparr> problemStatements = tl defaults, registrations = [] \<rparr>]
   \<and> \<not> dangling \<lparr> problemStatements = tl defaults, registrations = [] \<rparr>"
  by (simp add: dangling_def MongoStore_deleteProblemStatement_writes_def
        DatabaseManager_deleteProblemStatement_writes_def DatabaseManager_deleteProblemStatement_def
        scenario_def defaults_def registration_record_def request_def Let_def)

section \<open>The views of the catalog\<close>

text \<open>
  Claim C6. In every state, both stores list one view for each statement of the
  catalog, in order; its \<^verbatim>\<open>selected_count\<close> is the number of ledger entries
  whose \<^verbatim>\<open>problemStatementId\<close> is the id of the statement, and its
  \<^verbatim>\<open>is_available\<close> is \<^verbatim>\<open>selected_count < max_selections\<close> for the
  \<^verbatim>\<open>max_selections\<close> it reports: the stored value in the file-backed store,
  \<^verbatim>\<open>Math.max(1, parsedMax)\<close> of the stored value in the Mongo store, which is
  the stored value whenever that is a number of at least 1.
\<close>

theorem projection_correct:
  "list_all2 (\<lambda>p v. view_matches S (registrations d) p v \<and> view_max_selections v = maxSelections p)
     (problemStatements d) (DatabaseManager_getAllProblemStatements S d)
   \<and> list_all2 (\<lambda>p v. view_matches S (registrations d) p v
                   \<and> view_max_selections v = JNum (maxSel (maxSelections p))
                   \<and> (numeric_capacity (maxSelections p) \<longrightarrow> view_max_selections v = maxSelections p))
     (problemStatements d) (MongoStore_getAllProblemStatements d)"
proof
  show "list_all2 (\<lambda>p v. view_matches S (registrations d) p v \<and> view_max_selections v = maxSelections p)
     (problemStatements d) (DatabaseManager_getAllProblemStatements S d)"
    unfolding DatabaseManager_getAllProblemStatements_def Let_def
    by (rule list_all2_map_self) (simp add: view_matches_def idToCount_count)
  have same: "JNum (maxSel v) = v" if "numeric_capacity v" for v
    using that by (cases v) (simp_all add: numeric_capacity_def maxSel_def)
  show "list_all2 (\<lambda>p v. view_matches S (registrations d) p v
                   \<and> view_max_selections v = JNum (maxSel (maxSelections p))
                   \<and> (numeric_capacity (maxSelections p) \<longrightarrow> view_max_selections v = maxSelections p))
     (problemStatements d) (MongoStore_getAllProblemStatements d)"
    unfolding MongoStore_getAllProblemStatements_def Let_def
    by (rule list_all2_map_self) (simp add: view_matches_def idToCount_count js_lt_def same)
qed

theorem projection_correct_witness:
  "list_all (\<lambda>p. numeric_capacity (maxSelections p)) (problemStatements scenario)
   \<and> map view_max_selections (MongoStore_getAllProblemStatements scenario) = map maxSelections (problemStatements scenario)
   \<and> map selected_count (DatabaseManager_getAllProblemStatements (\<lambda>s. None) scenario) = [2, 0, 0]
   \<and> map is_available (DatabaseManager_getAllProblemStatements (\<lambda>s. None) scenario) = [False, True, True]
   \<and> map selected_count (MongoStore_getAllProblemStatements scenario) = [2, 0, 0]
   \<and> map is_available (MongoStore_getAllProblemStatements scenario) = [False, True, True]"
  using projection_correct[of "\<lambda>s. None" scenario]
  by (simp add: DatabaseManager_getAllProblemStatements_def MongoStore_getAllProblemStatements_def
        view_matches_def js_lt_def maxSel_def numeric_capacity_def scenario_def defaults_def
        request_def registration_record_def Let_def)

section \<open>Creating a problem statement\<close>

text \<open>
  Claim C7, as amended. When the id is in the catalog, \<^verbatim>\<open>createProblemStatement\<close>
  answers \<^verbatim>\<open>{ id, changes: 0 }\<close> and leaves the state unchanged; otherwise it
  appends the new document and answers \<^verbatim>\<open>{ id, changes: 1 }\<close>. Unique ids
  stay unique. The handler answers 201 in both cases.
\<close>

theorem create_on_collision:
  "(list_ex (\<lambda>q. ps_id q = ps_id p) (problemStatements d) \<longrightarrow>
       DatabaseManager_createProblemStatement p d = (\<lparr> res_id = ps_id p, changes = 0 \<rparr>, d)
     \<and> MongoStore_createProblemStatement p d = (\<lparr> res_id = ps_id p, changes = 0 \<rparr>, d)
     \<and> app_post_problem_statements p d = (201, d))
   \<and> (\<not> list_ex (\<lambda>q. ps_id q = ps_id p) (problemStatements d) \<longrightarrow>
       DatabaseManager_createProblemStatement p d
         = (\<lparr> res_id = ps_id p, changes = 1 \<rparr>,
            d \<lparr> problemStatements := problemStatements d @ [DatabaseManager_document p] \<rparr>)
     \<and> MongoStore_createProblemStatement p d
         = (\<lparr> res_id = ps_id p, changes = 1 \<rparr>,
            d \<lparr> problemStatements := problemStatements d @ [MongoStore_document p] \<rparr>)
     \<and> app_post_problem_statements p d
         = (201, d \<lparr> problemStatements := problemStatements d @ [DatabaseManager_document p] \<rparr>))
   \<and> (distinct (map ps_id (problemStatements d)) \<longrightarrow>
         distinct (map ps_id (problemStatements (snd (DatabaseManager_createProblemStatement p d))))
       \<and> distinct (map ps_id (problemStatements (snd (MongoStore_createProblemStatement p d)))))"
  by (auto simp: DatabaseManager_createProblemStatement_def MongoStore_createProblemStatement_def
        app_post_problem_statements_def insertOne_ps_def list_ex_iff)

theorem create_on_collision_witness:
  "list_ex (\<lambda>q. ps_id q = ps_id (statement ''ps001'' (JNum 3))) (problemStatements start)
   \<and> DatabaseManager_createProblemStatement (statement ''ps001'' (JNum 3)) start
       = (\<lparr> res_id = ''ps001'', changes = 0 \<rparr>, start)
   \<and> MongoStore_createProblemStatement (statement ''ps001'' (JNum 3)) start
       = (\<lparr> res_id = ''ps001'', changes = 0 \<rparr>, start)
   \<and> \<not> list_ex (\<lambda>q. ps_id q = ps_id (statement ''ps004'' (JNum 3))) (problemStatements start)
   \<and> DatabaseManager_createProblemStatement (statement ''ps004'' (JNum 3)) start
       = (\<lparr> res_id = ''ps004'', changes = 1 \<rparr>,
          \<lparr> problemStatements = defaults @ [statement ''ps004'' (JNum 3) \<lparr> category := JNull \<rparr>],
            registrations = [] \<rparr>)
   \<and> MongoStore_createProblemStatement (statement ''ps004'' (JNum 3)) start
       = (\<lparr> res_id = ''ps004'', changes = 1 \<rparr>,
          \<lparr> problemStatements = defaults @ [statement ''ps004'' (JNum 3) \<lparr> category := JNull \<rparr>],
            registrations = [] \<rparr>)
   \<and> distinct (map ps_id (problemStatements start))
   \<and> distinct (map ps_id (problemStatements (snd (DatabaseManager_createProblemStatement (statement ''ps004'' (JNum 3)) start))))"
proof -
  have a: "list_ex (\<lambda>q. ps_id q = ps_id (statement ''ps001'' (JNum 3))) (problemStatements start)"
    by (simp add: start_def defaults_def statement_def)
  have b: "\<not> list_ex (\<lambda>q. ps_id q = ps_id (statement ''ps004'' (JNum 3))) (problemStatements start)"
    by (simp add: start_def defaults_def statement_def)
  have c: "distinct (map ps_id (problemStatements start))"
    by (simp add: start_def defaults_def)
  have e: "DatabaseManager_document (statement ''ps004'' (JNum 3)) = statement ''ps004'' (JNum 3) \<lparr> category := JNull \<rparr>"
    "MongoStore_document (statement ''ps004'' (JNum 3)) = statement ''ps004'' (JNum 3) \<lparr> category := JNull \<rparr>"
    by (simp_all add: DatabaseManager_document_def MongoStore_document_def statement_def js_or_def
          bson_def maxSel_def)
  from create_on_collision[of "statement ''ps001'' (JNum 3)" start]
    create_on_collision[of "statement ''ps004'' (JNum 3)" start] a b c e
  show ?thesis by (auto simp: start_def statement_id list_ex_iff)
qed

text \<open>
  The claim as stated has the call reject with \<^verbatim>\<open>AlreadyExists\<close>. Creating
  \<^verbatim>\<open>ps001\<close> again returns normally in both stores, and the handler answers it
  with the status of a successful creation.
\<close>

theorem collision_not_signalled:
  "DatabaseManager_createProblemStatement (statement ''ps001'' (JNum 3)) start
       = (\<lparr> res_id = ''ps001'', changes = 0 \<rparr>, start)
   \<and> MongoStore_createProblemStatement (statement ''ps001'' (JNum 3)) start
       = (\<lparr> res_id = ''ps001'', changes = 0 \<rparr>, start)
   \<and> fst (app_post_problem_statements (statement ''ps001'' (JNum 3)) start) = 201
   \<and> fst (app_post_problem_statements (statement ''ps004'' (JNum 3)) start) = 201"
  by (simp add: DatabaseManager_createProblemStatement_def MongoStore_createProblemStatement_def
        app_post_problem_statements_def insertOne_ps_def start_def defaults_def statement_def)

section \<open>Updating a problem statement\<close>

text \<open>
  Claim C8, as amended. \<^verbatim>\<open>updateProblemStatement\<close> leaves the ledger alone and
  every statement of the catalog as it was, but for the first one with the
  given id: that one keeps its id and every field whose key the update does not
  define. With no statement of that id the answer is \<^verbatim>\<open>changes: 0\<close> and the
  state is unchanged. Otherwise the file-backed store answers \<^verbatim>\<open>changes: 1\<close>,
  and the Mongo store answers \<^verbatim>\<open>modifiedCount\<close>: 1 when the document changed,
  0 when the update left it as it was.
\<close>

theorem update_frame:
  "list_all2 (\<lambda>p p'. p' = p \<or> (ps_id p = i \<and> frame_ok u p p'))
      (problemStatements d) (problemStatements (snd (DatabaseManager_updateProblemStatement i u d)))
   \<and> list_all2 (\<lambda>p p'. p' = p \<or> (ps_id p = i \<and> frame_ok u p p'))
      (problemStatements d) (problemStatements (snd (MongoStore_updateProblemStatement i u d)))
   \<and> registrations (snd (DatabaseManager_updateProblemStatement i u d)) = registrations d
   \<and> registrations (snd (MongoStore_updateProblemStatement i u d)) = registrations d
   \<and> (case findIndex (\<lambda>p. ps_id p = i) (problemStatements d) of
      None \<Rightarrow>
        \<not> list_ex (\<lambda>p. ps_id p = i) (problemStatements d)
        \<and> DatabaseManager_updateProblemStatement i u d = (\<lparr> res_id = i, changes = 0 \<rparr>, d)
        \<and> MongoStore_updateProblemStatement i u d = (\<lparr> res_id = i, changes = 0 \<rparr>, d)
    | Some idx \<Rightarrow>
        idx < length (problemStatements d) \<and> ps_id (problemStatements d ! idx) = i
        \<and> frame_ok u (problemStatements d ! idx) (DatabaseManager_merge u (problemStatements d ! idx))
        \<and> DatabaseManager_updateProblemStatement i u d
            = (\<lparr> res_id = i, changes = 1 \<rparr>,
               d \<lparr> problemStatements :=
                     (problemStatements d)[idx := DatabaseManager_merge u (problemStatements d ! idx)] \<rparr>)
        \<and> frame_ok u (problemStatements d ! idx) (MongoStore_set u (problemStatements d ! idx))
        \<and> MongoStore_updateProblemStatement i u d
            = (\<lparr> res_id = i,
                 changes = (if MongoStore_set u (problemStatements d ! idx) = problemStatements d ! idx
                            then 0 else 1) \<rparr>,
               d \<lparr> problemStatements :=
                     (problemStatements d)[idx := MongoStore_set u (problemStatements d ! idx)] \<rparr>))"
proof (cases "findIndex (\<lambda>p. ps_id p = i) (problemStatements d)")
  case None
  then show ?thesis
    by (simp add: findIndex_None[symmetric] DatabaseManager_updateProblemStatement_def
          MongoStore_updateProblemStatement_def list.rel_refl)
next
  case (Some idx)
  from findIndex_Some[OF Some]
  have idx: "idx < length (problemStatements d)" "ps_id (problemStatements d ! idx) = i"
    by simp_all
  have "list_all2 (\<lambda>p p'. p' = p \<or> (ps_id p = i \<and> frame_ok u p p')) (problemStatements d)
          ((problemStatements d)[idx := DatabaseManager_merge u (problemStatements d ! idx)])"
    by (rule list_all2_update[OF idx(1)]) (simp_all add: idx(2) frame_merge)
  moreover have "list_all2 (\<lambda>p p'. p' = p \<or> (ps_id p = i \<and> frame_ok u p p')) (problemStatements d)
          ((problemStatements d)[idx := MongoStore_set u (problemStatements d ! idx)])"
    by (rule list_all2_update[OF idx(1)]) (simp_all add: idx(2) frame_set)
  ultimately show ?thesis using Some idx
    by (simp add: DatabaseManager_updateProblemStatement_def MongoStore_updateProblemStatement_def
          frame_merge frame_set Let_def)
qed

theorem update_frame_witness:
  "findIndex (\<lambda>p. ps_id p = ''ps002'') (problemStatements scenario) = Some 1
   \<and> DatabaseManager_updateProblemStatement ''ps002'' (no_updates \<lparr> difficulty := JStr ''Expert'' \<rparr>) scenario
       = (\<lparr> res_id = ''ps002'', changes = 1 \<rparr>,
          scenario \<lparr> problemStatements := (problemStatements scenario)[1 := (defaults ! 1) \<lparr> difficulty := JStr ''Expert'' \<rparr>] \<rparr>)
   \<and> MongoStore_updateProblemStatement ''ps002'' (no_updates \<lparr> difficulty := JStr ''Expert'' \<rparr>) scenario
       = (\<lparr> res_id = ''ps002'', changes = 1 \<rparr>,
          scenario \<lparr> problemStatements := (problemStatements scenario)[1 := (defaults ! 1) \<lparr> difficulty := JStr ''Expert'' \<rparr>] \<rparr>)
   \<and> findIndex (\<lambda>p. ps_id p = ''ps999'') (problemStatements scenario) = None
   \<and> DatabaseManager_updateProblemStatement ''ps999'' (no_updates \<lparr> difficulty := JStr ''Expert'' \<rparr>) scenario
       = (\<lparr> res_id = ''ps999'', changes = 0 \<rparr>, scenario)"
proof -
  have a: "findIndex (\<lambda>p. ps_id p = ''ps002'') (problemStatements scenario) = Some 1"
    by (simp add: scenario_def defaults_def)
  have b: "findIndex (\<lambda>p. ps_id p = ''ps999'') (problemStatements scenario) = None"
    by (simp add: scenario_def defaults_def)
  have c: "problemStatements scenario ! 1 = defaults ! 1" by (simp add: scenario_def)
  have m: "DatabaseManager_merge (no_updates \<lparr> difficulty := JStr ''Expert'' \<rparr>) (defaults ! 1)
             = (defaults ! 1) \<lparr> difficulty := JStr ''Expert'' \<rparr>"
    "MongoStore_set (no_updates \<lparr> difficulty := JStr ''Expert'' \<rparr>) (defaults ! 1)
             = (defaults ! 1) \<lparr> difficulty := JStr ''Expert'' \<rparr>"
    by (simp_all add: DatabaseManager_merge_def MongoStore_set_def set_if_defined_def no_updates_def)
  have n: "(defaults ! 1) \<lparr> difficulty := JStr ''Expert'' \<rparr> \<noteq> defaults ! 1"
    by (simp add: defaults_def)
  from update_frame[where i = "''ps002''" and d = scenario and u = "no_updates \<lparr> difficulty := JStr ''Expert'' \<rparr>"]
    update_frame[where i = "''ps999''" and d = scenario and u = "no_updates \<lparr> difficulty := JStr ''Expert'' \<rparr>"]
    a b c m n
  show ?thesis by simp
qed

text \<open>
  The claim as stated has the count be 1 whenever a statement has the id.
  Setting the title of \<^verbatim>\<open>ps001\<close> to the title it has is answered with 0 by
  the Mongo store, and with 1 by the file-backed store.
\<close>

theorem mongo_update_count_zero:
  "list_ex (\<lambda>p. ps_id p = ''ps001'') (problemStatements scenario)
   \<and> fst (MongoStore_updateProblemStatement ''ps001''
            (no_updates \<lparr> title := JStr ''Secure Authentication System'' \<rparr>) scenario)
       = \<lparr> res_id = ''ps001'', changes = 0 \<rparr>
   \<and> fst (DatabaseManager_updateProblemStatement ''ps001''
            (no_updates \<lparr> title := JStr ''Secure Authentication System'' \<rparr>) scenario)
       = \<lparr> res_id = ''ps001'', changes = 1 \<rparr>"
  by (simp add: MongoStore_updateProblemStatement_def DatabaseManager_updateProblemStatement_def
        MongoStore_set_def set_if_defined_def no_updates_def scenario_def defaults_def Let_def)

section \<open>The two stores side by side\<close>

text \<open>
  On a request whose team number has no white space around it, in a catalog
  whose \<^verbatim>\<open>maxSelections\<close> are numbers of at least 1, the two stores give the same
  answer and the same state.
\<close>

lemma backends_agree:
  assumes "trim (teamNumber r) = teamNumber r"
    and "list_all (\<lambda>p. numeric_capacity (maxSelections p)) (problemStatements d)"
  shows "DatabaseManager_createRegistrationAtomic S now r d = MongoStore_createRegistrationAtomic now r d"
proof (cases "find (\<lambda>p. ps_id p = problemStatementId r) (problemStatements d)")
  case None
  with assms(1) show ?thesis
    by (auto simp: DatabaseManager_createRegistrationAtomic_def MongoStore_createRegistrationAtomic_def
          list_ex_find split: option.splits)
next
  case (Some p)
  then have "p \<in> set (problemStatements d)" using find_Some_mem by fastforce
  with assms(2) have "numeric_capacity (maxSelections p)" by (simp add: list_all_iff)
  then obtain m where m: "maxSelections p = JNum m" "1 \<le> m"
    by (cases "maxSelections p") (simp_all add: numeric_capacity_def)
  then have "maxSel (maxSelections p) = m" by (simp add: maxSel_def)
  with Some m assms(1) show ?thesis
    by (auto simp: DatabaseManager_createRegistrationAtomic_def MongoStore_createRegistrationAtomic_def
          list_ex_find js_ge_def insertOne_regs_def registration_record_def Let_def
          split: option.splits)
qed

lemma backends_agree_example:
  "trim (teamNumber (request ''T3'' ''ps002'')) = teamNumber (request ''T3'' ''ps002'')
   \<and> list_all (\<lambda>p. numeric_capacity (maxSelections p)) (problemStatements scenario)
   \<and> DatabaseManager_createRegistrationAtomic (\<lambda>s. None) ''2025-01-01T11:00:00.000Z'' (request ''T3'' ''ps002'') scenario
       = MongoStore_createRegistrationAtomic ''2025-01-01T11:00:00.000Z'' (request ''T3'' ''ps002'') scenario
   \<and> fst (MongoStore_createRegistrationAtomic ''2025-01-01T11:00:00.000Z'' (request ''T3'' ''ps002'') scenario)
       = Some \<lparr> res_id = ''T3'', changes = 1 \<rparr>"
proof -
  have a: "trim (teamNumber (request ''T3'' ''ps002'')) = teamNumber (request ''T3'' ''ps002'')"
    by (simp add: request_def trim_def is_ws_def)
  have b: "list_all (\<lambda>p. numeric_capacity (maxSelections p)) (problemStatements scenario)"
    by (simp add: scenario_def defaults_def numeric_capacity_def)
  have c: "fst (MongoStore_createRegistrationAtomic ''2025-01-01T11:00:00.000Z'' (request ''T3'' ''ps002'') scenario)
       = Some \<lparr> res_id = ''T3'', changes = 1 \<rparr>"
    by (simp add: MongoStore_createRegistrationAtomic_def insertOne_regs_def maxSel_def trim_def
          is_ws_def scenario_def defaults_def request_def registration_record_def Let_def)
  from backends_agree[OF a b, of "\<lambda>s. None" "''2025-01-01T11:00:00.000Z''"] a b c
  show ?thesis by simp
qed

text \<open>
  Claim C10 against the code. From the same state the stores decide
  differently: on \<^verbatim>\<open>" T1 "\<close> with T1 registered the file-backed store accepts
  and the Mongo store refuses; for a statement stored with \<^verbatim>\<open>maxSelections: 0\<close>
  the file-backed store refuses and the Mongo store accepts. Where both accept
  \<^verbatim>\<open>"T7 "\<close>, they record different team numbers.
\<close>

theorem backends_disagree:
  "fst (DatabaseManager_createRegistrationAtomic (\<lambda>s. None) ''2025-01-01T11:00:00.000Z'' (request '' T1 '' ''ps002'') scenario)
     = Some \<lparr> res_id = '' T1 '', changes = 1 \<rparr>
   \<and> fst (MongoStore_createRegistrationAtomic ''2025-01-01T11:00:00.000Z'' (request '' T1 '' ''ps002'') scenario)
     = None
   \<and> DatabaseManager_createRegistrationAtomic (\<lambda>s. None) ''2025-01-01T11:00:00.000Z'' (request ''T1'' ''ps004'') zero_capacity
     = (None, zero_capacity)
   \<and> fst (MongoStore_createRegistrationAtomic ''2025-01-01T11:00:00.000Z'' (request ''T1'' ''ps004'') zero_capacity)
     = Some \<lparr> res_id = ''T1'', changes = 1 \<rparr>
   \<and> registrations (snd (DatabaseManager_createRegistrationAtomic (\<lambda>s. None) ''2025-01-01T11:00:00.000Z'' (request ''T7 '' ''ps002'') start))
     = [registration_record ''T7 '' (request ''T7 '' ''ps002'') ''2025-01-01T11:00:00.000Z'']
   \<and> registrations (snd (MongoStore_createRegistrationAtomic ''2025-01-01T11:00:00.000Z'' (request ''T7 '' ''ps002'') start))
     = [registration_record ''T7'' (request ''T7 '' ''ps002'') ''2025-01-01T11:00:00.000Z'']"
  by (simp add: DatabaseManager_createRegistrationAtomic_def MongoStore_createRegistrationAtomic_def
        DatabaseManager_createProblemStatement_def DatabaseManager_document_def zero_capacity_def
        insertOne_regs_def js_ge_def maxSel_def trim_def is_ws_def scenario_def start_def defaults_def
        request_def statement_def registration_record_def Let_def)

end
